theory Spec2Isabelle
  imports Main
begin

section \<open>Python strings\<close>

text \<open>
  A Python \<open>str\<close> is modelled as a \<open>string\<close> whose characters are code points below 256
  (Latin-1). \<open>is_space\<close> is \<open>str.isspace\<close> on one such code point, \<open>lower\<close> is
  \<open>str.lower\<close>, \<open>strip\<close> is \<open>str.strip()\<close> without arguments.
\<close>

definition is_space :: "char \<Rightarrow> bool" where
  "is_space c = (let n = (of_char c :: nat) in
     (9 \<le> n \<and> n \<le> 13) \<or> (28 \<le> n \<and> n \<le> 32) \<or> n = 133 \<or> n = 160)"

definition lower_char :: "char \<Rightarrow> char" where
  "lower_char c = (let n = (of_char c :: nat) in
     if (65 \<le> n \<and> n \<le> 90) \<or> (192 \<le> n \<and> n \<le> 222 \<and> n \<noteq> 215)
     then char_of (n + 32) else c)"

definition lower :: "string \<Rightarrow> string" where
  "lower s = map lower_char s"

definition strip :: "string \<Rightarrow> string" where
  "strip s = rev (dropWhile is_space (rev (dropWhile is_space s)))"

text \<open>\<open>s.split(":")[0]\<close>: the text before the first colon (all of \<open>s\<close> without one).\<close>

definition split_first :: "string \<Rightarrow> string" where
  "split_first s = takeWhile (\<lambda>c. c \<noteq> CHR '':'') s"

text \<open>
  \<open>s.rsplit(":", 1)\<close> for an \<open>s\<close> that contains a colon: the text before the last colon
  and the text after it. Both sources call it only under \<open>if ":" in agent_id\<close>.
\<close>

definition rsplit1 :: "string \<Rightarrow> string \<times> string" where
  "rsplit1 s = (let r = rev s in
     (rev (tl (dropWhile (\<lambda>c. c \<noteq> CHR '':'') r)), rev (takeWhile (\<lambda>c. c \<noteq> CHR '':'') r)))"

section \<open>Exceptions, console, remote service\<close>

datatype exn =
    ValueError string
  | FileNotFoundError string
  | RuntimeError string
  | EOFError
  | RemoteError string

text \<open>
  A command ends by returning, by \<open>sys.exit(n)\<close> or by an exception that nothing
  catches. \<open>exit_code\<close> is the status the interpreter then gives the process.
\<close>

datatype abort = SysExit nat | Raised exn

fun exit_code :: "abort + 'a \<Rightarrow> nat" where
  "exit_code (Inr _) = 0"
| "exit_code (Inl (SysExit n)) = n"
| "exit_code (Inl (Raised _)) = 1"

datatype tool =
    FunctionTool string string "(string \<times> string \<times> string) list" "string list" bool
  | FileSearchTool "string list"

record agent_definition =
  model :: string
  instructions :: string
  tools :: "tool list"

record vector_store =
  status :: string
  vs_repr :: string

datatype remote_call =
    FilesCreate string
  | VectorStoresCreate string "string list"
  | VectorStoresRetrieve string
  | CreateVersion string agent_definition
  | DeleteVersion string string
  | AgentsList
  | VectorStoresDelete string
  | FilesDelete string
  | ConversationsCreate
  | ConversationsDelete string
  | ItemsCreate string string
  | ResponsesCreate string string

text \<open>
  What a run does, in order: a line printed, the prompt of \<open>input\<close>, a call to the hosting
  service, a \<open>time.sleep\<close>, and \<open>os.system('azd env set KEY "VALUE"')\<close>, the only write to the azd
  environment in either program.
\<close>

datatype event =
    Print string
  | Prompt string
  | Call remote_call
  | Sleep nat
  | AzdEnvSet string string

text \<open>
  The surroundings of one run: the answers of the hosting service (each call may raise),
  whether the document is on disk, and the lines typed at the prompt. The status of a
  vector store changes with time, so \<open>vector_stores_retrieve\<close> takes the number of earlier
  polls; \<open>items_create\<close> and \<open>responses_create\<close> take the number of earlier chat turns.
\<close>

record world =
  docs_path :: string
  docs_exists :: bool
  files_create :: "string \<Rightarrow> exn + string"
  vector_stores_create :: "string \<Rightarrow> string list \<Rightarrow> exn + string"
  vector_stores_retrieve :: "nat \<Rightarrow> string \<Rightarrow> exn + vector_store"
  create_version :: "string \<Rightarrow> agent_definition \<Rightarrow> exn + string"
  delete_version :: "string \<Rightarrow> string \<Rightarrow> exn + unit"
  agents_list :: "exn + (string \<times> string) list"
  vector_stores_delete :: "string \<Rightarrow> exn + unit"
  files_delete :: "string \<Rightarrow> exn + unit"
  conversations_create :: "exn + string"
  conversations_delete :: "string \<Rightarrow> exn + unit"
  items_create :: "nat \<Rightarrow> string \<Rightarrow> string \<Rightarrow> exn + unit"
  responses_create :: "nat \<Rightarrow> string \<Rightarrow> string \<Rightarrow> exn + string"
  stdin :: "string list"

type_synonym environ = "string \<rightharpoonup> string"

type_synonym 'a run = "event list \<times> (abort + 'a)"

text \<open>Sequencing: the second part runs only when the first one returned.\<close>

definition bind :: "'a run \<Rightarrow> ('a \<Rightarrow> 'b run) \<Rightarrow> 'b run" where
  "bind m f = (case m of
       (t, Inl e) \<Rightarrow> (t, Inl e)
     | (t, Inr x) \<Rightarrow> (case f x of (t', r) \<Rightarrow> (t @ t', r)))"

definition return :: "'a \<Rightarrow> 'a run" where
  "return x = ([], Inr x)"

definition print :: "string \<Rightarrow> unit run" where
  "print s = ([Print s], Inr ())"

definition raise :: "exn \<Rightarrow> 'a run" where
  "raise e = ([], Inl (Raised e))"

definition sys_exit :: "nat \<Rightarrow> 'a run" where
  "sys_exit n = ([], Inl (SysExit n))"

definition call :: "remote_call \<Rightarrow> exn + 'a \<Rightarrow> 'a run" where
  "call c r = ([Call c], (case r of Inl e \<Rightarrow> Inl (Raised e) | Inr x \<Rightarrow> Inr x))"

text \<open>\<open>try: m except Exception as e: h e\<close>; \<open>sys.exit\<close> is not an \<open>Exception\<close>.\<close>

definition try_except :: "'a run \<Rightarrow> (exn \<Rightarrow> 'a run) \<Rightarrow> 'a run" where
  "try_except m h = (case m of
       (t, Inl (Raised e)) \<Rightarrow> (case h e of (t', r) \<Rightarrow> (t @ t', r))
     | (t, r) \<Rightarrow> (t, r))"

text \<open>\<open>str(e)\<close> of an exception, as the f-strings print it.\<close>

fun exn_str :: "exn \<Rightarrow> string" where
  "exn_str (ValueError m) = m"
| "exn_str (FileNotFoundError m) = m"
| "exn_str (RuntimeError m) = m"
| "exn_str EOFError = []"
| "exn_str (RemoteError m) = m"

text \<open>\<open>if not value\<close> on the result of \<open>os.environ.get\<close>: unset or empty.\<close>

definition falsy :: "string option \<Rightarrow> bool" where
  "falsy v = (v = None \<or> v = Some [])"

definition environ_get :: "environ \<Rightarrow> string \<Rightarrow> string \<Rightarrow> string" where
  "environ_get env name dflt = (case env name of None \<Rightarrow> dflt | Some v \<Rightarrow> v)"

definition banner :: string where
  "banner = replicate 50 CHR ''=''"

definition rule_line :: string where
  "rule_line = replicate 50 CHR ''-''"

section \<open>Foundry-IaC-Agent/src/agent_manager.py\<close>

text \<open>
  The client object is represented by its endpoint; \<open>DefaultAzureCredential()\<close>,
  \<open>AIProjectClient(...)\<close> and \<open>get_openai_client()\<close> only build objects.
\<close>

definition get_project_client_iac :: "environ \<Rightarrow> string run" where
  "get_project_client_iac env =
     (if falsy (env ''PROJECT_ENDPOINT'')
      then raise (ValueError ''PROJECT_ENDPOINT environment variable is required'')
      else return (the (env ''PROJECT_ENDPOINT'')))"

definition product_instructions :: string where
  "product_instructions =
     ''You are a helpful product documentation assistant.'' @ [CHR 0x0A] @
     ''You have access to product documentation via file search.'' @ [CHR 0x0A] @
     ''When users ask questions, search the documents to provide accurate answers.'' @ [CHR 0x0A] @
     ''Always cite the source when providing information from documents.'' @ [CHR 0x0A] @
     ''If you cannot find relevant information, say so clearly.''"

text \<open>
  Lines 44 to 76 of \<open>create_agent_with_vector_store\<close>: the upload and the creation of
  the vector store. Returns \<open>(model_deployment, uploaded_file.id, vector_store.id)\<close>.
\<close>

definition upload_and_index :: "environ \<Rightarrow> world \<Rightarrow> (string \<times> string \<times> string) run" where
  "upload_and_index env w =
     bind (print ''Creating Standard Agent with Vector Store...'') (\<lambda>_.
     let model_deployment = environ_get env ''CHAT_MODEL_DEPLOYMENT'' ''gpt-4.1-mini'' in
     bind (get_project_client_iac env) (\<lambda>project_client.
     bind (print ''  Uploading document...'') (\<lambda>_.
     bind (if \<not> docs_exists w
           then raise (FileNotFoundError (''Document not found: '' @ docs_path w))
           else return ()) (\<lambda>_.
     bind (call (FilesCreate ''assistants'') (files_create w ''assistants'')) (\<lambda>file_id.
     bind (print (''  FILE_ID: '' @ file_id)) (\<lambda>_.
     bind (print ''  Creating vector store...'') (\<lambda>_.
     bind (call (VectorStoresCreate ''ProductDocsVectorStore'' [file_id])
             (vector_stores_create w ''ProductDocsVectorStore'' [file_id])) (\<lambda>vs_id.
     bind (print (''  VECTORSTORE_ID: '' @ vs_id)) (\<lambda>_.
     bind (print ''  Waiting for vector store processing...'') (\<lambda>_.
     return (model_deployment, file_id, vs_id)))))))))))"

text \<open>
  Lines 78 to 85, the \<open>while True\<close> loop: poll number \<open>n\<close>, with the events so far in
  \<open>t\<close>. The loop has no bound, so a run that never leaves it is \<open>None\<close>.
\<close>

partial_function (option) wait_loop ::
  "world \<Rightarrow> string \<Rightarrow> nat \<Rightarrow> event list \<Rightarrow> (unit run) option" where
  "wait_loop w vs_id n t =
     (case vector_stores_retrieve w n vs_id of
        Inl e \<Rightarrow> Some (t @ [Call (VectorStoresRetrieve vs_id)], Inl (Raised e))
      | Inr vs_status \<Rightarrow>
          if status vs_status = ''completed''
          then Some (t @ [Call (VectorStoresRetrieve vs_id), Print ''  Vector store ready!''], Inr ())
          else if status vs_status = ''failed''
          then Some (t @ [Call (VectorStoresRetrieve vs_id)],
                 Inl (Raised (RuntimeError (''Vector store creation failed: '' @ vs_repr vs_status))))
          else wait_loop w vs_id (n + 1) (t @ [Call (VectorStoresRetrieve vs_id), Sleep 1]))"

declare wait_loop.simps [code]

text \<open>Lines 87 to 117: the definition, \<open>create_version\<close> and the summary.\<close>

definition create_standard_agent ::
  "world \<Rightarrow> string \<Rightarrow> string \<Rightarrow> string \<Rightarrow> (string \<times> string \<times> string) run" where
  "create_standard_agent w model_deployment file_id vs_id =
     bind (print ''  Creating Standard Agent...'') (\<lambda>_.
     let agent_definition = \<lparr>model = model_deployment, instructions = product_instructions,
           tools = [FileSearchTool [vs_id]]\<rparr> in
     bind (call (CreateVersion ''IaCDocumentAgent'' agent_definition)
             (create_version w ''IaCDocumentAgent'' agent_definition)) (\<lambda>agent_id.
     bind (print (''  AGENT_ID: '' @ agent_id)) (\<lambda>_.
     bind (print []) (\<lambda>_.
     bind (print banner) (\<lambda>_.
     bind (print ''Standard Agent created successfully!'') (\<lambda>_.
     bind (print (''  Agent ID: '' @ agent_id)) (\<lambda>_.
     bind (print (''  Vector Store ID: '' @ vs_id)) (\<lambda>_.
     bind (print (''  File ID: '' @ file_id)) (\<lambda>_.
     bind (print banner) (\<lambda>_.
     return (agent_id, vs_id, file_id)))))))))))"

definition create_agent_with_vector_store ::
  "environ \<Rightarrow> world \<Rightarrow> ((string \<times> string \<times> string) run) option" where
  "create_agent_with_vector_store env w =
     (case upload_and_index env w of
        (t, Inl a) \<Rightarrow> Some (t, Inl a)
      | (t, Inr (model_deployment, file_id, vs_id)) \<Rightarrow>
          (case wait_loop w vs_id 0 t of
             None \<Rightarrow> None
           | Some waited \<Rightarrow>
               Some (bind waited (\<lambda>_. create_standard_agent w model_deployment file_id vs_id))))"

text \<open>\<open>if v: body\<close> for a \<open>v\<close> read with \<open>os.environ.get\<close>.\<close>

definition if_set :: "string option \<Rightarrow> (string \<Rightarrow> unit run) \<Rightarrow> unit run" where
  "if_set v body = (if falsy v then return () else body (the v))"

definition delete_agent_and_resources :: "environ \<Rightarrow> world \<Rightarrow> unit run" where
  "delete_agent_and_resources env w =
     bind (print ''Deleting Standard Agent and resources...'') (\<lambda>_.
     bind (get_project_client_iac env) (\<lambda>project_client.
     bind (if_set (env ''AGENT_ID'') (\<lambda>agent_id.
             try_except
               (let (agent_name, agent_version) =
                      (if CHR '':'' \<in> set agent_id then rsplit1 agent_id else (agent_id, ''1'')) in
                bind (print (''  Deleting agent: '' @ agent_name @ '' version '' @ agent_version)) (\<lambda>_.
                bind (call (DeleteVersion agent_name agent_version)
                        (delete_version w agent_name agent_version)) (\<lambda>_.
                print ''  Agent deleted.'')))
               (\<lambda>e. print (''  Warning: Could not delete agent: '' @ exn_str e)))) (\<lambda>_.
     bind (if_set (env ''VECTORSTORE_ID'') (\<lambda>vectorstore_id.
             try_except
               (bind (print (''  Deleting vector store: '' @ vectorstore_id)) (\<lambda>_.
                bind (call (VectorStoresDelete vectorstore_id)
                        (vector_stores_delete w vectorstore_id)) (\<lambda>_.
                print ''  Vector store deleted.'')))
               (\<lambda>e. print (''  Warning: Could not delete vector store: '' @ exn_str e)))) (\<lambda>_.
     bind (if_set (env ''FILE_ID'') (\<lambda>file_id.
             try_except
               (bind (print (''  Deleting file: '' @ file_id)) (\<lambda>_.
                bind (call (FilesDelete file_id) (files_delete w file_id)) (\<lambda>_.
                print ''  File deleted.'')))
               (\<lambda>e. print (''  Warning: Could not delete file: '' @ exn_str e)))) (\<lambda>_.
     bind (print []) (\<lambda>_.
     print ''Cleanup completed.''))))))"

text \<open>
  The \<open>while True\<close> loop of \<open>chat_with_agent\<close>, over the lines still to be typed; \<open>n\<close>
  counts the turns sent so far. \<open>input\<close> raises \<open>EOFError\<close> when no line is left.
\<close>

fun chat_loop :: "world \<Rightarrow> string \<Rightarrow> string \<Rightarrow> nat \<Rightarrow> string list \<Rightarrow> unit run" where
  "chat_loop w agent_name conversation_id n [] =
     ([Prompt (CHR 0x0A # ''You: '')], Inl (Raised EOFError))"
| "chat_loop w agent_name conversation_id n (line # rest) =
     bind ([Prompt (CHR 0x0A # ''You: '')], Inr (strip line)) (\<lambda>user_input.
     if lower user_input \<in> set [''quit'', ''exit'', ''q'']
     then bind (try_except
                  (call (ConversationsDelete conversation_id)
                     (conversations_delete w conversation_id))
                  (\<lambda>e. return ())) (\<lambda>_.
          print ''Goodbye!'')
     else if user_input = []
     then chat_loop w agent_name conversation_id n rest
     else bind (call (ItemsCreate conversation_id user_input)
                  (items_create w n conversation_id user_input)) (\<lambda>_.
          bind (call (ResponsesCreate conversation_id agent_name)
                  (responses_create w n conversation_id agent_name)) (\<lambda>output_text.
          bind (print (CHR 0x0A # ''Assistant: '' @ output_text)) (\<lambda>_.
          chat_loop w agent_name conversation_id (n + 1) rest))))"

definition chat_with_agent :: "environ \<Rightarrow> world \<Rightarrow> unit run" where
  "chat_with_agent env w =
     (if falsy (env ''AGENT_ID'')
      then bind (print ''Error: AGENT_ID not set. Run 'create' first.'') (\<lambda>_. sys_exit 1)
      else
        let agent_id = the (env ''AGENT_ID'');
            agent_name = (if CHR '':'' \<in> set agent_id then split_first agent_id else agent_id) in
        bind (print (''Starting chat with Standard Agent '' @ [CHR 0x27] @ agent_name @ [CHR 0x27] @ ''...'')) (\<lambda>_.
        bind (print ''Type 'quit' or 'exit' to end the session.'') (\<lambda>_.
        bind (print rule_line) (\<lambda>_.
        bind (get_project_client_iac env) (\<lambda>project_client.
        bind (call ConversationsCreate (conversations_create w)) (\<lambda>conversation_id.
        bind (print (''Conversation started (id: '' @ conversation_id @ '')'')) (\<lambda>_.
        chat_loop w agent_name conversation_id 0 (stdin w))))))))"

definition main_iac :: "string list \<Rightarrow> environ \<Rightarrow> world \<Rightarrow> (unit run) option" where
  "main_iac argv env w =
     (if length argv < 2
      then Some (
        bind (print ''Usage: python agent_manager.py <command>'') (\<lambda>_.
        bind (print ''Commands:'') (\<lambda>_.
        bind (print ''  create  - Create agent with vector store'') (\<lambda>_.
        bind (print ''  delete  - Delete agent and resources'') (\<lambda>_.
        bind (print ''  chat    - Interactive chat with agent'') (\<lambda>_.
        sys_exit 1))))))
      else
        let command = lower (argv ! 1) in
        if command = ''create''
        then map_option (\<lambda>r. bind r (\<lambda>_. return ())) (create_agent_with_vector_store env w)
        else if command = ''delete'' then Some (delete_agent_and_resources env w)
        else if command = ''chat'' then Some (chat_with_agent env w)
        else Some (bind (print (''Unknown command: '' @ command)) (\<lambda>_. sys_exit 1)))"

section \<open>AgentId/src/agent_manager.py\<close>

definition get_env_or_fail :: "string \<Rightarrow> environ \<Rightarrow> string run" where
  "get_env_or_fail name env =
     (if falsy (env name)
      then bind (print (''Error: '' @ name @ '' environment variable not set'')) (\<lambda>_. sys_exit 1)
      else return (the (env name)))"

definition get_project_client_aid :: "environ \<Rightarrow> string run" where
  "get_project_client_aid env = get_env_or_fail ''PROJECT_ENDPOINT'' env"

text \<open>
  A \<open>FunctionTool\<close> is its name, its description, the properties of its JSON schema as
  (name, type, description), the \<open>required\<close> list and \<open>strict\<close>.
\<close>

definition get_function_tools :: "tool list" where
  "get_function_tools =
     [FunctionTool ''list_files''
        ''List files in the user's OneDrive. Can optionally filter by folder path.''
        [(''folder_path'', ''string'',
            ''Optional folder path to list files from. Use '/' for root, or specify a path like 'Documents' or 'Documents/Projects'. If not provided, lists files in the root folder.''),
         (''include_subfolders'', ''boolean'',
            ''Whether to include files from subfolders. Default is false.'')]
        [] False,
      FunctionTool ''get_drive_info''
        ''Get information about the user's OneDrive, including total storage, used storage, and remaining storage.''
        [] [] False,
      FunctionTool ''search_files''
        ''Search for files in the user's OneDrive by name or content.''
        [(''query'', ''string'',
            ''The search query to find files. Can search by filename or content.'')]
        [''query''] False]"

definition AGENT_INSTRUCTIONS :: string where
  "AGENT_INSTRUCTIONS =
     ''You are an OneDrive assistant that helps users manage and explore their files.'' @ [CHR 0x0A] @
     [CHR 0x0A] @
     ''You can:'' @ [CHR 0x0A] @
     ''- List files in any folder in the user's OneDrive'' @ [CHR 0x0A] @
     ''- Search for files by name or content'' @ [CHR 0x0A] @
     ''- Show drive storage information'' @ [CHR 0x0A] @
     [CHR 0x0A] @
     ''Always be helpful and provide clear, organized responses. When listing files, format them nicely.'' @ [CHR 0x0A] @
     ''If an operation fails, explain what happened and suggest alternatives.'' @ [CHR 0x0A] @
     [CHR 0x0A] @
     ''Note: You access the user's OneDrive on their behalf using delegated permissions.''"

definition create_agent :: "environ \<Rightarrow> world \<Rightarrow> unit run" where
  "create_agent env w =
     bind (get_env_or_fail ''CHAT_MODEL_DEPLOYMENT'' env) (\<lambda>model_deployment.
     let agent_name = environ_get env ''AGENT_NAME'' ''OneDrive-Agent'' in
     bind (print (''Creating Standard Agent: '' @ agent_name)) (\<lambda>_.
     bind (get_project_client_aid env) (\<lambda>project_client.
     let agent_definition = \<lparr>model = model_deployment, instructions = AGENT_INSTRUCTIONS,
           tools = get_function_tools\<rparr> in
     bind (call (CreateVersion agent_name agent_definition)
             (create_version w agent_name agent_definition)) (\<lambda>agent_id.
     bind (print (''Created agent: '' @ agent_id)) (\<lambda>_.
     bind ([AzdEnvSet ''AGENT_ID'' agent_id], Inr ()) (\<lambda>_.
     bind ([AzdEnvSet ''AGENT_NAME'' agent_name], Inr ()) (\<lambda>_.
     bind (print []) (\<lambda>_.
     bind (print banner) (\<lambda>_.
     bind (print ''Standard Agent created successfully!'') (\<lambda>_.
     bind (print (''  Agent ID: '' @ agent_id)) (\<lambda>_.
     bind (print (''  Agent Name: '' @ agent_name)) (\<lambda>_.
     bind (print banner) (\<lambda>_.
     print (CHR 0x0A # ''Agent visible in Foundry portal under: Build > Agents > '' @ agent_name))))))))))))))"

definition delete_agent :: "environ \<Rightarrow> world \<Rightarrow> unit run" where
  "delete_agent env w =
     (let agent_name = environ_get env ''AGENT_NAME'' ''OneDrive-Agent'' in
      if falsy (env ''AGENT_ID'')
      then print ''No agent to delete (AGENT_ID not set)''
      else
        let agent_id = the (env ''AGENT_ID'') in
        bind (print (''Deleting agent: '' @ agent_name @ '' (ID: '' @ agent_id @ '')'')) (\<lambda>_.
        bind (get_project_client_aid env) (\<lambda>project_client.
        try_except
          (bind (if CHR '':'' \<in> set agent_id
                 then let (name, version) = rsplit1 agent_id in
                      call (DeleteVersion name version) (delete_version w name version)
                 else call (DeleteVersion agent_name ''1'') (delete_version w agent_name ''1'')) (\<lambda>_.
           print ''Agent deleted successfully''))
          (\<lambda>e. print (''Error deleting agent: '' @ exn_str e)))))"

definition list_agents :: "environ \<Rightarrow> world \<Rightarrow> unit run" where
  "list_agents env w =
     bind (print ''Standard Agents in project:'') (\<lambda>_.
     bind (print rule_line) (\<lambda>_.
     bind (get_project_client_aid env) (\<lambda>project_client.
     bind (call AgentsList (agents_list w)) (\<lambda>agents.
     (map (\<lambda>(name, agent_id). Print (''  '' @ name @ '' (id: '' @ agent_id @ '')'')) agents, Inr ())))))"

definition main_aid :: "string list \<Rightarrow> environ \<Rightarrow> world \<Rightarrow> unit run" where
  "main_aid argv env w =
     (if length argv < 2
      then
        bind (print ''Usage: python agent_manager.py <command>'') (\<lambda>_.
        bind (print ''Commands:'') (\<lambda>_.
        bind (print ''  create  - Create Standard Agent'') (\<lambda>_.
        bind (print ''  delete  - Delete Standard Agent'') (\<lambda>_.
        bind (print ''  list    - List all agents'') (\<lambda>_.
        sys_exit 1)))))
      else
        let command = lower (argv ! 1) in
        if command = ''create'' then create_agent env w
        else if command = ''delete'' then delete_agent env w
        else if command = ''list'' then list_agents env w
        else bind (print (''Unknown command: '' @ command)) (\<lambda>_. sys_exit 1))"

section \<open>Reading a run\<close>

text \<open>The calls to the hosting service in a run, in order.\<close>

fun remote_calls :: "event list \<Rightarrow> remote_call list" where
  "remote_calls [] = []"
| "remote_calls (Call c # t) = c # remote_calls t"
| "remote_calls (_ # t) = remote_calls t"

text \<open>The lines printed in a run, in order.\<close>

fun printed :: "event list \<Rightarrow> string list" where
  "printed [] = []"
| "printed (Print s # t) = s # printed t"
| "printed (_ # t) = printed t"

text \<open>The azd environment after a run that started with \<open>store\<close>.\<close>

fun azd_env_after :: "event list \<Rightarrow> environ \<Rightarrow> environ" where
  "azd_env_after [] store = store"
| "azd_env_after (AzdEnvSet k v # t) store = azd_env_after t (store(k \<mapsto> v))"
| "azd_env_after (_ # t) store = azd_env_after t store"

text \<open>The number of status queries in a run.\<close>

fun polls :: "event list \<Rightarrow> nat" where
  "polls [] = 0"
| "polls (Call (VectorStoresRetrieve _) # t) = Suc (polls t)"
| "polls (_ # t) = polls t"

text \<open>Whether a run issues \<open>create_version\<close>.\<close>

fun creates_agent :: "event list \<Rightarrow> bool" where
  "creates_agent [] = False"
| "creates_agent (Call (CreateVersion _ _) # t) = True"
| "creates_agent (_ # t) = creates_agent t"

text \<open>
  A scripted status sequence: from poll \<open>n\<close> on, the queries for \<open>vs_id\<close> answer with
  the statuses \<open>xs\<close>, one after the other.
\<close>

fun scripted :: "world \<Rightarrow> string \<Rightarrow> nat \<Rightarrow> string list \<Rightarrow> bool" where
  "scripted w vs_id n [] = True"
| "scripted w vs_id n (x # xs) =
     ((case vector_stores_retrieve w n vs_id of Inl _ \<Rightarrow> False | Inr v \<Rightarrow> status v = x)
      \<and> scripted w vs_id (Suc n) xs)"

definition terminal :: "string \<Rightarrow> bool" where
  "terminal s = (s = ''completed'' \<or> s = ''failed'')"

text \<open>
  A service where every call succeeds; the vector store answers \<open>in_progress\<close> twice and
  then \<open>completed\<close>, and \<open>create_version\<close> gives the first version of the name.
\<close>

definition steady_world :: world where
  "steady_world = \<lparr>
     docs_path = ''docs/product_manual.md'',
     docs_exists = True,
     files_create = (\<lambda>_. Inr ''file-1''),
     vector_stores_create = (\<lambda>_ _. Inr ''vs-1''),
     vector_stores_retrieve = (\<lambda>n _. Inr \<lparr>status = (if n < 2 then ''in_progress'' else ''completed''),
                                           vs_repr = ''VectorStore''\<rparr>),
     create_version = (\<lambda>name _. Inr (name @ '':1'')),
     delete_version = (\<lambda>_ _. Inr ()),
     agents_list = Inr [],
     vector_stores_delete = (\<lambda>_. Inr ()),
     files_delete = (\<lambda>_. Inr ()),
     conversations_create = Inr ''conv-1'',
     conversations_delete = (\<lambda>_. Inr ()),
     items_create = (\<lambda>_ _ _. Inr ()),
     responses_create = (\<lambda>_ _ _. Inr ''Hi.''),
     stdin = [''hello'', ''exit'']\<rparr>"

text \<open>The same service with a vector store that fails at the second poll.\<close>

definition failing_store_world :: world where
  "failing_store_world = steady_world\<lparr>
     vector_stores_retrieve := (\<lambda>n _. Inr \<lparr>status = (if n < 1 then ''in_progress'' else ''failed''),
                                            vs_repr = ''VectorStore''\<rparr>)\<rparr>"

text \<open>The same service with every deletion refused.\<close>

definition refusing_world :: world where
  "refusing_world = steady_world\<lparr>
     delete_version := (\<lambda>_ _. Inl (RemoteError ''gone'')),
     vector_stores_delete := (\<lambda>_. Inl (RemoteError ''gone'')),
     files_delete := (\<lambda>_. Inl (RemoteError ''gone'')),
     conversations_delete := (\<lambda>_. Inl (RemoteError ''gone''))\<rparr>"

section \<open>Properties\<close>

subsection \<open>Strings and runs\<close>

lemmas run_defs = bind_def return_def print_def raise_def sys_exit_def call_def try_except_def
  if_set_def falsy_def environ_get_def

lemma rsplit1_append:
  assumes "CHR '':'' \<notin> set v"
  shows "rsplit1 (n @ CHR '':'' # v) = (n, v)"
proof -
  let ?P = "\<lambda>c. c \<noteq> CHR '':''"
  have a: "\<And>x. x \<in> set (rev v) \<Longrightarrow> ?P x" using assms by auto
  have "dropWhile ?P (rev v @ CHR '':'' # rev n) = CHR '':'' # rev n"
    using dropWhile_append2 [of "rev v" ?P "CHR '':'' # rev n"] a by simp
  moreover have "takeWhile ?P (rev v @ CHR '':'' # rev n) = rev v"
    using takeWhile_append2 [of "rev v" ?P "CHR '':'' # rev n"] a by simp
  ultimately show ?thesis by (simp add: rsplit1_def Let_def)
qed

lemma rsplit1_parts:
  assumes "CHR '':'' \<in> set s"
  shows "s = fst (rsplit1 s) @ CHR '':'' # snd (rsplit1 s) \<and> CHR '':'' \<notin> set (snd (rsplit1 s))"
proof -
  let ?P = "\<lambda>c. c \<noteq> CHR '':''"
  let ?r = "rev s"
  from assms have "dropWhile ?P ?r \<noteq> []" by (auto simp: dropWhile_eq_Nil_conv)
  moreover have "dropWhile ?P ?r \<noteq> [] \<Longrightarrow> hd (dropWhile ?P ?r) = CHR '':''"
    using hd_dropWhile [of ?P ?r] by auto
  ultimately have d: "dropWhile ?P ?r = CHR '':'' # tl (dropWhile ?P ?r)"
    by (metis list.collapse)
  have "?r = takeWhile ?P ?r @ dropWhile ?P ?r" by simp
  then have "?r = takeWhile ?P ?r @ CHR '':'' # tl (dropWhile ?P ?r)" using d by metis
  then have "rev ?r = rev (takeWhile ?P ?r @ CHR '':'' # tl (dropWhile ?P ?r))" by metis
  then have "s = rev (tl (dropWhile ?P ?r)) @ CHR '':'' # rev (takeWhile ?P ?r)" by simp
  moreover have "CHR '':'' \<notin> set (rev (takeWhile ?P ?r))"
    using set_takeWhileD [of "CHR '':''" ?P ?r] by auto
  ultimately show ?thesis by (simp add: rsplit1_def Let_def)
qed

lemma split_first_no_colon: "CHR '':'' \<notin> set (split_first s)"
  using set_takeWhileD [of "CHR '':''" "\<lambda>c. c \<noteq> CHR '':''" s] by (auto simp: split_first_def)

lemma count_list_0: "x \<notin> set xs \<Longrightarrow> count_list xs x = 0"
  by (induction xs) auto

lemma names_differ:
  assumes "2 \<le> count_list s CHR '':''"
  shows "split_first s \<noteq> fst (rsplit1 s)"
proof -
  from assms have c: "CHR '':'' \<in> set s" using count_list_0 [of "CHR '':''" s] by fastforce
  from rsplit1_parts [OF c] have
    e: "s = fst (rsplit1 s) @ CHR '':'' # snd (rsplit1 s)" and n: "CHR '':'' \<notin> set (snd (rsplit1 s))"
    by auto
  have "count_list s CHR '':'' = count_list (fst (rsplit1 s)) CHR '':'' + 1 + count_list (snd (rsplit1 s)) CHR '':''"
    by (subst e) simp
  with assms n have "1 \<le> count_list (fst (rsplit1 s)) CHR '':''" by (simp add: count_list_0)
  then have "CHR '':'' \<in> set (fst (rsplit1 s))" using count_list_0 [of "CHR '':''" "fst (rsplit1 s)"] by fastforce
  with split_first_no_colon [of s] show ?thesis by metis
qed

lemma lower_char_idem: "lower_char (lower_char c) = lower_char c"
proof -
  have "of_char c < (256::nat)" by simp
  then show ?thesis unfolding lower_char_def Let_def
    by (auto simp: )
qed

lemma lower_idem: "lower (lower s) = lower s"
  by (simp add: lower_def lower_char_idem)

subsection \<open>Teardown\<close>

lemma remote_calls_append: "remote_calls (a @ b) = remote_calls a @ remote_calls b"
  by (induction a rule: remote_calls.induct) simp_all

lemma printed_append: "printed (a @ b) = printed a @ printed b"
  by (induction a rule: printed.induct) simp_all

lemma fst_bind: "fst (bind m f) = (case snd m of Inl e \<Rightarrow> fst m | Inr x \<Rightarrow> fst m @ fst (f x))"
  by (cases m) (auto simp: bind_def split: sum.splits prod.splits)

lemma snd_bind: "snd (bind m f) = (case snd m of Inl e \<Rightarrow> Inl e | Inr x \<Rightarrow> snd (f x))"
  by (cases m) (auto simp: bind_def split: sum.splits prod.splits)

lemma fst_if_set: "fst (if_set v body) = (if falsy v then [] else fst (body (the v)))"
  by (simp add: if_set_def return_def)

lemma snd_if_set: "snd (if_set v body) = (if falsy v then Inr () else snd (body (the v)))"
  by (simp add: if_set_def return_def)

lemma run_print: "fst (print s) = [Print s]" "snd (print s) = Inr ()"
  by (simp_all add: print_def)

lemma run_return: "fst (return x) = []" "snd (return x) = Inr x"
  by (simp_all add: return_def)

lemma guarded_snd:
  "snd (try_except (bind (print s) (\<lambda>_. bind (call c r) (\<lambda>_. print s'))) (\<lambda>e. print (g e))) = Inr ()"
  by (cases r) (simp_all add: run_defs)

lemma guarded_fst:
  "fst (try_except (bind (print s) (\<lambda>_. bind (call c r) (\<lambda>_. print s'))) (\<lambda>e. print (g e))) =
     [Print s, Call c, Print (case r of Inl e \<Rightarrow> g e | Inr _ \<Rightarrow> s')]"
  by (cases r) (simp_all add: run_defs)

lemma client_iac_ok:
  "\<not> falsy (env ''PROJECT_ENDPOINT'') \<Longrightarrow> get_project_client_iac env = return (the (env ''PROJECT_ENDPOINT''))"
  by (simp add: get_project_client_iac_def)

lemmas proj = fst_bind snd_bind fst_if_set snd_if_set run_print run_return guarded_snd guarded_fst
  case_prod_beta

lemma teardown_returns:
  assumes "\<not> falsy (env ''PROJECT_ENDPOINT'')"
  shows "snd (delete_agent_and_resources env w) = Inr ()"
  using assms by (simp add: delete_agent_and_resources_def client_iac_ok proj)


lemma teardown_calls:
  assumes "\<not> falsy (env ''PROJECT_ENDPOINT'')"
  shows "remote_calls (fst (delete_agent_and_resources env w)) =
       (if falsy (env ''AGENT_ID'') then []
        else [case (if CHR '':'' \<in> set (the (env ''AGENT_ID''))
                    then rsplit1 (the (env ''AGENT_ID'')) else (the (env ''AGENT_ID''), ''1''))
              of (n, v) \<Rightarrow> DeleteVersion n v]) @
       (if falsy (env ''VECTORSTORE_ID'') then []
        else [VectorStoresDelete (the (env ''VECTORSTORE_ID''))]) @
       (if falsy (env ''FILE_ID'') then [] else [FilesDelete (the (env ''FILE_ID''))])"
  using assms by (simp add: delete_agent_and_resources_def client_iac_ok proj)

lemma teardown_printed:
  assumes "\<not> falsy (env ''PROJECT_ENDPOINT'')"
  shows "printed (fst (delete_agent_and_resources env w)) =
       [''Deleting Standard Agent and resources...''] @
       (if falsy (env ''AGENT_ID'') then []
        else case (if CHR '':'' \<in> set (the (env ''AGENT_ID''))
                    then rsplit1 (the (env ''AGENT_ID'')) else (the (env ''AGENT_ID''), ''1''))
              of (n, v) \<Rightarrow>
               [''  Deleting agent: '' @ n @ '' version '' @ v,
                case delete_version w n v of
                  Inl e \<Rightarrow> ''  Warning: Could not delete agent: '' @ exn_str e
                | Inr _ \<Rightarrow> ''  Agent deleted.'']) @
       (if falsy (env ''VECTORSTORE_ID'') then []
        else [''  Deleting vector store: '' @ the (env ''VECTORSTORE_ID''),
              case vector_stores_delete w (the (env ''VECTORSTORE_ID'')) of
                Inl e \<Rightarrow> ''  Warning: Could not delete vector store: '' @ exn_str e
              | Inr _ \<Rightarrow> ''  Vector store deleted.'']) @
       (if falsy (env ''FILE_ID'') then []
        else [''  Deleting file: '' @ the (env ''FILE_ID''),
              case files_delete w (the (env ''FILE_ID'')) of
                Inl e \<Rightarrow> ''  Warning: Could not delete file: '' @ exn_str e
              | Inr _ \<Rightarrow> ''  File deleted.'']) @
       [[], ''Cleanup completed.'']"
  using assms by (simp add: delete_agent_and_resources_def client_iac_ok proj split: sum.splits)

text \<open>
  C3. Teardown with the project endpoint configured always returns, whatever identifiers
  are set and whichever deletions the service refuses. It attempts the deletion of
  exactly the resources whose identifier is set, in the order agent, vector store, file;
  a refused deletion only prints a warning; an unset or empty identifier prints nothing.
  With only \<open>VECTORSTORE_ID\<close> set, the vector store is the only resource deleted.
\<close>

theorem teardown_best_effort:
  assumes "\<not> falsy (env ''PROJECT_ENDPOINT'')"
  shows "snd (delete_agent_and_resources env w) = Inr () \<and>
     remote_calls (fst (delete_agent_and_resources env w)) =
       (if falsy (env ''AGENT_ID'') then []
        else [case (if CHR '':'' \<in> set (the (env ''AGENT_ID''))
                    then rsplit1 (the (env ''AGENT_ID'')) else (the (env ''AGENT_ID''), ''1''))
              of (n, v) \<Rightarrow> DeleteVersion n v]) @
       (if falsy (env ''VECTORSTORE_ID'') then []
        else [VectorStoresDelete (the (env ''VECTORSTORE_ID''))]) @
       (if falsy (env ''FILE_ID'') then [] else [FilesDelete (the (env ''FILE_ID''))]) \<and>
     printed (fst (delete_agent_and_resources env w)) =
       [''Deleting Standard Agent and resources...''] @
       (if falsy (env ''AGENT_ID'') then []
        else case (if CHR '':'' \<in> set (the (env ''AGENT_ID''))
                    then rsplit1 (the (env ''AGENT_ID'')) else (the (env ''AGENT_ID''), ''1''))
              of (n, v) \<Rightarrow>
               [''  Deleting agent: '' @ n @ '' version '' @ v,
                case delete_version w n v of
                  Inl e \<Rightarrow> ''  Warning: Could not delete agent: '' @ exn_str e
                | Inr _ \<Rightarrow> ''  Agent deleted.'']) @
       (if falsy (env ''VECTORSTORE_ID'') then []
        else [''  Deleting vector store: '' @ the (env ''VECTORSTORE_ID''),
              case vector_stores_delete w (the (env ''VECTORSTORE_ID'')) of
                Inl e \<Rightarrow> ''  Warning: Could not delete vector store: '' @ exn_str e
              | Inr _ \<Rightarrow> ''  Vector store deleted.'']) @
       (if falsy (env ''FILE_ID'') then []
        else [''  Deleting file: '' @ the (env ''FILE_ID''),
              case files_delete w (the (env ''FILE_ID'')) of
                Inl e \<Rightarrow> ''  Warning: Could not delete file: '' @ exn_str e
              | Inr _ \<Rightarrow> ''  File deleted.'']) @
       [[], ''Cleanup completed.''] \<and>
     (falsy (env ''AGENT_ID'') \<and> falsy (env ''FILE_ID'') \<and> \<not> falsy (env ''VECTORSTORE_ID'') \<longrightarrow>
        remote_calls (fst (delete_agent_and_resources env w)) =
          [VectorStoresDelete (the (env ''VECTORSTORE_ID''))])"
  using assms teardown_returns [of env w] teardown_calls [of env w] teardown_printed [of env w]
  by simp

text \<open>
  C3, with only \<open>VECTORSTORE_ID\<close> set, on a service that refuses every deletion.
\<close>

theorem teardown_best_effort_witness:
  "\<not> falsy ([''PROJECT_ENDPOINT'' \<mapsto> ''https://example.invalid'', ''VECTORSTORE_ID'' \<mapsto> ''vs-1'']
       ''PROJECT_ENDPOINT'') \<and>
   snd (delete_agent_and_resources
     [''PROJECT_ENDPOINT'' \<mapsto> ''https://example.invalid'', ''VECTORSTORE_ID'' \<mapsto> ''vs-1'']
     refusing_world) = Inr () \<and>
   remote_calls (fst (delete_agent_and_resources
     [''PROJECT_ENDPOINT'' \<mapsto> ''https://example.invalid'', ''VECTORSTORE_ID'' \<mapsto> ''vs-1'']
     refusing_world)) = [VectorStoresDelete ''vs-1''] \<and>
   printed (fst (delete_agent_and_resources
     [''PROJECT_ENDPOINT'' \<mapsto> ''https://example.invalid'', ''VECTORSTORE_ID'' \<mapsto> ''vs-1'']
     refusing_world)) =
     [''Deleting Standard Agent and resources...'', ''  Deleting vector store: vs-1'',
      ''  Warning: Could not delete vector store: gone'', [], ''Cleanup completed.'']"
  using teardown_best_effort [of
      "[''PROJECT_ENDPOINT'' \<mapsto> ''https://example.invalid'', ''VECTORSTORE_ID'' \<mapsto> ''vs-1'']"
      refusing_world]
  by (simp add: falsy_def refusing_world_def steady_world_def)

lemma client_aid_ok:
  "\<not> falsy (env ''PROJECT_ENDPOINT'') \<Longrightarrow>
     get_project_client_aid env = return (the (env ''PROJECT_ENDPOINT''))"
  by (simp add: get_project_client_aid_def get_env_or_fail_def)

lemma guarded_call_fst:
  "fst (try_except (bind (call c r) (\<lambda>_. print s')) (\<lambda>e. print (g e))) =
     [Call c, Print (case r of Inl e \<Rightarrow> g e | Inr _ \<Rightarrow> s')]"
  by (cases r) (simp_all add: run_defs)

lemma delete_agent_calls:
  assumes "\<not> falsy (env ''PROJECT_ENDPOINT'')" and "\<not> falsy (env ''AGENT_ID'')"
  shows "remote_calls (fst (delete_agent env w)) =
     [if CHR '':'' \<in> set (the (env ''AGENT_ID''))
      then DeleteVersion (fst (rsplit1 (the (env ''AGENT_ID'')))) (snd (rsplit1 (the (env ''AGENT_ID''))))
      else DeleteVersion (environ_get env ''AGENT_NAME'' ''OneDrive-Agent'') ''1'']"
  using assms
  by (simp add: delete_agent_def client_aid_ok proj guarded_call_fst Let_def)

text \<open>
  C4 (amended). At delete time an agent id with a colon is split at its last colon into
  name and version, in both programs. An id without a colon gets version \<open>"1"\<close>; its
  name is the id itself in Foundry-IaC-Agent, and the value of \<open>AGENT_NAME\<close> (default
  \<open>"OneDrive-Agent"\<close>) in AgentId.
\<close>

theorem agent_id_parsed_at_delete:
  assumes "\<not> falsy (env ''PROJECT_ENDPOINT'')" and "env ''AGENT_ID'' = Some agent_id"
    and "agent_id \<noteq> []"
  shows "(CHR '':'' \<in> set agent_id \<longrightarrow>
            agent_id = fst (rsplit1 agent_id) @ CHR '':'' # snd (rsplit1 agent_id) \<and>
            CHR '':'' \<notin> set (snd (rsplit1 agent_id)) \<and>
            take 1 (remote_calls (fst (delete_agent_and_resources env w))) =
              [DeleteVersion (fst (rsplit1 agent_id)) (snd (rsplit1 agent_id))] \<and>
            remote_calls (fst (delete_agent env w)) =
              [DeleteVersion (fst (rsplit1 agent_id)) (snd (rsplit1 agent_id))])
       \<and> (CHR '':'' \<notin> set agent_id \<longrightarrow>
            take 1 (remote_calls (fst (delete_agent_and_resources env w))) =
              [DeleteVersion agent_id ''1''] \<and>
            remote_calls (fst (delete_agent env w)) =
              [DeleteVersion (environ_get env ''AGENT_NAME'' ''OneDrive-Agent'') ''1''])"
proof -
  have f: "\<not> falsy (env ''AGENT_ID'')" using assms by (simp add: falsy_def)
  show ?thesis
    using assms teardown_calls [of env w] delete_agent_calls [of env w] f
      rsplit1_parts [of agent_id]
    by (simp add: case_prod_beta)
qed

text \<open>
  C4, at the ids \<open>"MyAgent:3"\<close> and \<open>"MyAgent"\<close>.
\<close>

theorem agent_id_parsed_at_delete_witness:
  "take 1 (remote_calls (fst (delete_agent_and_resources
       [''PROJECT_ENDPOINT'' \<mapsto> ''https://example.invalid'', ''AGENT_ID'' \<mapsto> ''MyAgent:3'']
       steady_world))) = [DeleteVersion ''MyAgent'' ''3''] \<and>
   remote_calls (fst (delete_agent
       [''PROJECT_ENDPOINT'' \<mapsto> ''https://example.invalid'', ''AGENT_ID'' \<mapsto> ''MyAgent:3'']
       steady_world)) = [DeleteVersion ''MyAgent'' ''3''] \<and>
   take 1 (remote_calls (fst (delete_agent_and_resources
       [''PROJECT_ENDPOINT'' \<mapsto> ''https://example.invalid'', ''AGENT_ID'' \<mapsto> ''MyAgent'']
       steady_world))) = [DeleteVersion ''MyAgent'' ''1''] \<and>
   remote_calls (fst (delete_agent
       [''PROJECT_ENDPOINT'' \<mapsto> ''https://example.invalid'', ''AGENT_ID'' \<mapsto> ''MyAgent'',
        ''AGENT_NAME'' \<mapsto> ''Files'']
       steady_world)) = [DeleteVersion ''Files'' ''1'']"
proof -
  have r: "rsplit1 ''MyAgent:3'' = (''MyAgent'', ''3'')" by code_simp
  show ?thesis
    using agent_id_parsed_at_delete [where
            env = "[''PROJECT_ENDPOINT'' \<mapsto> ''https://example.invalid'', ''AGENT_ID'' \<mapsto> ''MyAgent:3'']"
            and agent_id = "''MyAgent:3''" and w = steady_world, THEN conjunct1]
        agent_id_parsed_at_delete [where
            env = "[''PROJECT_ENDPOINT'' \<mapsto> ''https://example.invalid'', ''AGENT_ID'' \<mapsto> ''MyAgent'']"
            and agent_id = "''MyAgent''" and w = steady_world, THEN conjunct2]
        agent_id_parsed_at_delete [where
            env = "[''PROJECT_ENDPOINT'' \<mapsto> ''https://example.invalid'', ''AGENT_ID'' \<mapsto> ''MyAgent'',
                    ''AGENT_NAME'' \<mapsto> ''Files'']"
            and agent_id = "''MyAgent''" and w = steady_world, THEN conjunct2]
    by (simp add: falsy_def environ_get_def r)
qed

text \<open>
  C4 as stated fails in AgentId: with \<open>AGENT_ID = "MyAgent"\<close> and no \<open>AGENT_NAME\<close>,
  \<open>delete_agent\<close> deletes version 1 of \<open>"OneDrive-Agent"\<close>, not of \<open>"MyAgent"\<close>.
\<close>

theorem agent_id_parsed_at_delete_counterexample:
  "remote_calls (fst (delete_agent
       [''PROJECT_ENDPOINT'' \<mapsto> ''https://example.invalid'', ''AGENT_ID'' \<mapsto> ''MyAgent'']
       steady_world)) = [DeleteVersion ''OneDrive-Agent'' ''1''] \<and>
   remote_calls (fst (delete_agent
       [''PROJECT_ENDPOINT'' \<mapsto> ''https://example.invalid'', ''AGENT_ID'' \<mapsto> ''MyAgent'']
       steady_world)) \<noteq> [DeleteVersion ''MyAgent'' ''1'']"
  by (simp add: delete_agent_calls falsy_def environ_get_def)

subsection \<open>Command line\<close>

lemma lower_words:
  "lower ''CREATE'' = ''create''" "lower ''Delete'' = ''delete''" "lower ''LIST'' = ''list''"
  "lower ''CHAT'' = ''chat''" "lower ''create'' = ''create''" "lower ''list'' = ''list''"
  by (simp_all add: lower_def lower_char_def char_of_def bit_Suc_0_iff)

text \<open>
  C10. In both programs the command is lowercased before it is compared: running with
  a command gives the same run as running with its lowercase form, so \<open>CREATE\<close>,
  \<open>Delete\<close>, \<open>LIST\<close> and \<open>CHAT\<close> select the same functions as their lowercase forms.
\<close>

theorem command_case_insensitive:
  "main_aid (prog # cmd # rest) env w = main_aid (prog # lower cmd # rest) env w \<and>
   main_iac (prog # cmd # rest) env w = main_iac (prog # lower cmd # rest) env w \<and>
   main_aid [prog, ''CREATE''] env w = create_agent env w \<and>
   main_aid [prog, ''Delete''] env w = delete_agent env w \<and>
   main_aid [prog, ''LIST''] env w = list_agents env w \<and>
   main_iac [prog, ''CREATE''] env w = main_iac [prog, ''create''] env w \<and>
   main_iac [prog, ''Delete''] env w = Some (delete_agent_and_resources env w) \<and>
   main_iac [prog, ''CHAT''] env w = Some (chat_with_agent env w)"
  by (simp add: main_aid_def main_iac_def lower_idem Let_def lower_words)

text \<open>
  C10, at the command \<open>LIST\<close>.
\<close>

theorem command_case_insensitive_witness:
  "main_aid [''agent_manager.py'', ''LIST''] [''PROJECT_ENDPOINT'' \<mapsto> ''https://example.invalid'']
     steady_world =
     ([Print ''Standard Agents in project:'', Print rule_line, Call AgentsList], Inr ())"
proof -
  have a: "list_agents [''PROJECT_ENDPOINT'' \<mapsto> ''https://example.invalid''] steady_world =
      ([Print ''Standard Agents in project:'', Print rule_line, Call AgentsList], Inr ())"
    by code_simp
  from command_case_insensitive [of "''agent_manager.py''" "''LIST''" "[]"
          "[''PROJECT_ENDPOINT'' \<mapsto> ''https://example.invalid'']" steady_world]
  have "main_aid [''agent_manager.py'', ''LIST''] [''PROJECT_ENDPOINT'' \<mapsto> ''https://example.invalid'']
     steady_world = list_agents [''PROJECT_ENDPOINT'' \<mapsto> ''https://example.invalid''] steady_world"
    by blast
  with a show ?thesis by simp
qed

lemma usage_aid:
  "length argv < 2 \<Longrightarrow> main_aid argv env w =
     ([Print ''Usage: python agent_manager.py <command>'', Print ''Commands:'',
       Print ''  create  - Create Standard Agent'', Print ''  delete  - Delete Standard Agent'',
       Print ''  list    - List all agents''], Inl (SysExit 1))"
  by (simp add: main_aid_def run_defs)

lemma usage_iac:
  "length argv < 2 \<Longrightarrow> main_iac argv env w =
     Some ([Print ''Usage: python agent_manager.py <command>'', Print ''Commands:'',
       Print ''  create  - Create agent with vector store'',
       Print ''  delete  - Delete agent and resources'',
       Print ''  chat    - Interactive chat with agent''], Inl (SysExit 1))"
  by (simp add: main_iac_def run_defs)

lemma unknown_aid:
  "2 \<le> length argv \<Longrightarrow> lower (argv ! 1) \<notin> {''create'', ''delete'', ''list''} \<Longrightarrow>
     main_aid argv env w = ([Print (''Unknown command: '' @ lower (argv ! 1))], Inl (SysExit 1))"
  by (simp add: main_aid_def run_defs Let_def)

lemma unknown_iac:
  "2 \<le> length argv \<Longrightarrow> lower (argv ! 1) \<notin> {''create'', ''delete'', ''chat''} \<Longrightarrow>
     main_iac argv env w = Some ([Print (''Unknown command: '' @ lower (argv ! 1))], Inl (SysExit 1))"
  by (simp add: main_iac_def run_defs Let_def)

lemma known_aid:
  assumes "2 \<le> length argv"
  shows "lower (argv ! 1) = ''create'' \<Longrightarrow> main_aid argv env w = create_agent env w"
    and "lower (argv ! 1) = ''delete'' \<Longrightarrow> main_aid argv env w = delete_agent env w"
    and "lower (argv ! 1) = ''list'' \<Longrightarrow> main_aid argv env w = list_agents env w"
  using assms by (simp_all add: main_aid_def Let_def)

lemma known_iac:
  assumes "2 \<le> length argv"
  shows "lower (argv ! 1) = ''create'' \<Longrightarrow> create_agent_with_vector_store env w = Some (t, Inr ids) \<Longrightarrow>
           main_iac argv env w = Some (t, Inr ())"
    and "lower (argv ! 1) = ''delete'' \<Longrightarrow> main_iac argv env w = Some (delete_agent_and_resources env w)"
    and "lower (argv ! 1) = ''chat'' \<Longrightarrow> main_iac argv env w = Some (chat_with_agent env w)"
  using assms by (simp_all add: main_iac_def Let_def run_defs)

text \<open>
  C8. Without a command argument both programs print the usage text and exit with
  code 1; with a command that is not recognised they print \<open>Unknown command\<close> and exit
  with code 1; when the function of a recognised command returns, the exit code is 0.
\<close>

theorem exit_codes:
  "(length argv < 2 \<longrightarrow>
      main_aid argv env w =
        ([Print ''Usage: python agent_manager.py <command>'', Print ''Commands:'',
          Print ''  create  - Create Standard Agent'', Print ''  delete  - Delete Standard Agent'',
          Print ''  list    - List all agents''], Inl (SysExit 1)) \<and>
      exit_code (snd (main_aid argv env w)) = 1 \<and>
      main_iac argv env w =
        Some ([Print ''Usage: python agent_manager.py <command>'', Print ''Commands:'',
          Print ''  create  - Create agent with vector store'',
          Print ''  delete  - Delete agent and resources'',
          Print ''  chat    - Interactive chat with agent''], Inl (SysExit 1)) \<and>
      map_option (\<lambda>r. exit_code (snd r)) (main_iac argv env w) = Some 1) \<and>
   (2 \<le> length argv \<and> lower (argv ! 1) \<notin> {''create'', ''delete'', ''list''} \<longrightarrow>
      main_aid argv env w = ([Print (''Unknown command: '' @ lower (argv ! 1))], Inl (SysExit 1)) \<and>
      exit_code (snd (main_aid argv env w)) = 1) \<and>
   (2 \<le> length argv \<and> lower (argv ! 1) \<notin> {''create'', ''delete'', ''chat''} \<longrightarrow>
      main_iac argv env w =
        Some ([Print (''Unknown command: '' @ lower (argv ! 1))], Inl (SysExit 1)) \<and>
      map_option (\<lambda>r. exit_code (snd r)) (main_iac argv env w) = Some 1) \<and>
   (2 \<le> length argv \<and> lower (argv ! 1) = ''create'' \<and> snd (create_agent env w) = Inr () \<longrightarrow>
      exit_code (snd (main_aid argv env w)) = 0) \<and>
   (2 \<le> length argv \<and> lower (argv ! 1) = ''delete'' \<and> snd (delete_agent env w) = Inr () \<longrightarrow>
      exit_code (snd (main_aid argv env w)) = 0) \<and>
   (2 \<le> length argv \<and> lower (argv ! 1) = ''list'' \<and> snd (list_agents env w) = Inr () \<longrightarrow>
      exit_code (snd (main_aid argv env w)) = 0) \<and>
   (2 \<le> length argv \<and> lower (argv ! 1) = ''create'' \<and>
      (\<exists>t ids. create_agent_with_vector_store env w = Some (t, Inr ids)) \<longrightarrow>
      map_option (\<lambda>r. exit_code (snd r)) (main_iac argv env w) = Some 0) \<and>
   (2 \<le> length argv \<and> lower (argv ! 1) = ''delete'' \<and>
      snd (delete_agent_and_resources env w) = Inr () \<longrightarrow>
      map_option (\<lambda>r. exit_code (snd r)) (main_iac argv env w) = Some 0) \<and>
   (2 \<le> length argv \<and> lower (argv ! 1) = ''chat'' \<and> snd (chat_with_agent env w) = Inr () \<longrightarrow>
      map_option (\<lambda>r. exit_code (snd r)) (main_iac argv env w) = Some 0)"
  by (intro conjI impI; (elim conjE exE)?)
    (simp_all add: usage_aid usage_iac unknown_aid unknown_iac known_aid known_iac)


text \<open>
  C8, with no command, with \<open>bogus\<close>, with \<open>list\<close> and with \<open>delete\<close>.
\<close>

theorem exit_codes_witness:
  "exit_code (snd (main_aid [''agent_manager.py''] Map.empty steady_world)) = 1 \<and>
   main_aid [''agent_manager.py'', ''bogus''] Map.empty steady_world =
     ([Print ''Unknown command: bogus''], Inl (SysExit 1)) \<and>
   exit_code (snd (main_aid [''agent_manager.py'', ''list'']
     [''PROJECT_ENDPOINT'' \<mapsto> ''https://example.invalid''] steady_world)) = 0 \<and>
   map_option (\<lambda>r. exit_code (snd r)) (main_iac [''agent_manager.py'', ''delete'']
     [''PROJECT_ENDPOINT'' \<mapsto> ''https://example.invalid''] steady_world) = Some 0"
proof -
  have l: "lower ''bogus'' = ''bogus''" "lower ''list'' = ''list''" "lower ''delete'' = ''delete''"
    by (simp_all add: lower_def lower_char_def)
  have h3: "snd (list_agents [''PROJECT_ENDPOINT'' \<mapsto> ''https://example.invalid''] steady_world) = Inr ()"
    by code_simp
  have h4: "snd (delete_agent_and_resources [''PROJECT_ENDPOINT'' \<mapsto> ''https://example.invalid'']
      steady_world) = Inr ()"
    by (simp add: teardown_returns falsy_def)
  show ?thesis
    using exit_codes [of "[''agent_manager.py'']" Map.empty steady_world]
      exit_codes [of "[''agent_manager.py'', ''bogus'']" Map.empty steady_world]
      exit_codes [of "[''agent_manager.py'', ''list'']"
        "[''PROJECT_ENDPOINT'' \<mapsto> ''https://example.invalid'']" steady_world]
      exit_codes [of "[''agent_manager.py'', ''delete'']"
        "[''PROJECT_ENDPOINT'' \<mapsto> ''https://example.invalid'']" steady_world]
    by (simp add: l h3 h4)
qed

subsection \<open>Chat session\<close>

lemma lower_Nil: "lower [] = []"
  by (simp add: lower_def)

lemma chat_loop_exit:
  assumes "lower (strip line) \<in> set [''quit'', ''exit'', ''q'']"
  shows "chat_loop w a c n (line # rest) =
     ([Prompt (CHR 0x0A # ''You: ''), Call (ConversationsDelete c), Print ''Goodbye!''], Inr ())"
  using assms by (cases "conversations_delete w c") (simp_all add: run_defs)

lemma chat_loop_blank:
  assumes "strip line = []"
  shows "chat_loop w a c n (line # rest) =
     (Prompt (CHR 0x0A # ''You: '') # fst (chat_loop w a c n rest), snd (chat_loop w a c n rest))"
  using assms by (simp add: bind_def lower_Nil split: prod.splits)

lemma chat_loop_turn:
  assumes "lower (strip line) \<notin> set [''quit'', ''exit'', ''q'']" and "strip line \<noteq> []"
    and "items_create w n c (strip line) = Inr ()" and "responses_create w n c a = Inr reply"
  shows "chat_loop w a c n (line # rest) =
     (Prompt (CHR 0x0A # ''You: '') # Call (ItemsCreate c (strip line)) #
        Call (ResponsesCreate c a) # Print (CHR 0x0A # ''Assistant: '' @ reply) #
        fst (chat_loop w a c (n + 1) rest),
      snd (chat_loop w a c (n + 1) rest))"
  using assms by (simp add: run_defs split: prod.splits)

lemma chat_loop_agent:
  "ResponsesCreate c' nm \<in> set (remote_calls (fst (chat_loop w a c n ls))) \<Longrightarrow> nm = a \<and> c' = c"
proof (induction ls arbitrary: n)
  case Nil
  then show ?case by simp
next
  case (Cons line rest)
  show ?case
  proof (cases "lower (strip line) \<in> set [''quit'', ''exit'', ''q'']")
    case True
    from Cons.prems show ?thesis by (simp add: chat_loop_exit [OF True] del: chat_loop.simps(2))
  next
    case n1: False
    show ?thesis
    proof (cases "strip line = []")
      case True
      from Cons.prems Cons.IH [of n] show ?thesis by (simp add: chat_loop_blank [OF True] del: chat_loop.simps(2))
    next
      case n2: False
      show ?thesis
      proof (cases "items_create w n c (strip line)")
        case (Inl e)
        with Cons.prems n1 n2 show ?thesis by (simp add: run_defs)
      next
        case i: (Inr u)
        show ?thesis
        proof (cases "responses_create w n c a")
          case (Inl e)
          with Cons.prems n1 n2 i show ?thesis by (simp add: run_defs)
        next
          case (Inr reply)
          from i have "items_create w n c (strip line) = Inr ()" by simp
          from chat_loop_turn [OF n1 n2 this Inr] Cons.prems Cons.IH [of "n + 1"]
          show ?thesis by (auto simp del: chat_loop.simps(2))
        qed
      qed
    qed
  qed
qed

lemma chat_with_agent_run:
  assumes "\<not> falsy (env ''AGENT_ID'')" and "\<not> falsy (env ''PROJECT_ENDPOINT'')"
    and "conversations_create w = Inr cid"
  shows "remote_calls (fst (chat_with_agent env w)) =
           ConversationsCreate # remote_calls (fst (chat_loop w
             (if CHR '':'' \<in> set (the (env ''AGENT_ID''))
              then split_first (the (env ''AGENT_ID'')) else the (env ''AGENT_ID''))
             cid 0 (stdin w)))"
    and "snd (chat_with_agent env w) = snd (chat_loop w
             (if CHR '':'' \<in> set (the (env ''AGENT_ID''))
              then split_first (the (env ''AGENT_ID'')) else the (env ''AGENT_ID''))
             cid 0 (stdin w))"
  using assms
  by (simp_all add: chat_with_agent_def client_iac_ok fst_bind snd_bind run_print run_return Let_def
        call_def remote_calls_append)

lemma chat_with_agent_no_conversation:
  assumes "\<not> falsy (env ''AGENT_ID'')" and "\<not> falsy (env ''PROJECT_ENDPOINT'')"
    and "conversations_create w = Inl e"
  shows "remote_calls (fst (chat_with_agent env w)) = [ConversationsCreate]"
  using assms
  by (simp add: chat_with_agent_def client_iac_ok fst_bind snd_bind run_print run_return Let_def
        call_def remote_calls_append)


lemma chat_words:
  "strip ''hello'' = ''hello''" "lower ''hello'' = ''hello''"
  "strip ''exit'' = ''exit''" "lower ''exit'' = ''exit''"
  by (simp_all add: strip_def is_space_def lower_def lower_char_def)

lemma hello_exit:
  assumes "items_create w 0 c ''hello'' = Inr ()" and "responses_create w 0 c a = Inr reply"
  shows "chat_loop w a c 0 [''hello'', ''exit''] =
     ([Prompt (CHR 0x0A # ''You: ''), Call (ItemsCreate c ''hello''), Call (ResponsesCreate c a),
       Print (CHR 0x0A # ''Assistant: '' @ reply),
       Prompt (CHR 0x0A # ''You: ''), Call (ConversationsDelete c), Print ''Goodbye!''], Inr ())"
proof -
  have e: "chat_loop w a c (0 + 1) [''exit''] =
     ([Prompt (CHR 0x0A # ''You: ''), Call (ConversationsDelete c), Print ''Goodbye!''], Inr ())"
    by (rule chat_loop_exit) (simp add: chat_words)
  have "chat_loop w a c 0 [''hello'', ''exit''] =
     (Prompt (CHR 0x0A # ''You: '') # Call (ItemsCreate c (strip ''hello'')) #
        Call (ResponsesCreate c a) # Print (CHR 0x0A # ''Assistant: '' @ reply) #
        fst (chat_loop w a c (0 + 1) [''exit'']),
      snd (chat_loop w a c (0 + 1) [''exit'']))"
    using assms by (intro chat_loop_turn) (simp_all add: chat_words)
  then show ?thesis by (simp only: e chat_words fst_conv snd_conv)
qed

text \<open>
  C6. With an agent id and the endpoint configured, a conversation that can be created
  and the lines \<open>hello\<close> and \<open>exit\<close> typed, the chat session makes exactly four remote
  calls, in this order: one conversation created, one user item appended, one response
  requested, the conversation deleted; then it returns, whether or not the deletion
  succeeded. A line that is blank after stripping costs no remote call. A line whose
  stripped, lowercased form is \<open>quit\<close>, \<open>exit\<close> or \<open>q\<close> deletes the conversation and ends
  the loop.
\<close>

theorem chat_session:
  "(\<not> falsy (env ''AGENT_ID'') \<and> \<not> falsy (env ''PROJECT_ENDPOINT'') \<and>
      stdin w = [''hello'', ''exit''] \<and> conversations_create w = Inr cid \<and>
      items_create w 0 cid ''hello'' = Inr () \<and>
      responses_create w 0 cid
        (if CHR '':'' \<in> set (the (env ''AGENT_ID''))
         then split_first (the (env ''AGENT_ID'')) else the (env ''AGENT_ID'')) = Inr reply \<longrightarrow>
      snd (chat_with_agent env w) = Inr () \<and>
      remote_calls (fst (chat_with_agent env w)) =
        [ConversationsCreate, ItemsCreate cid ''hello'',
         ResponsesCreate cid
           (if CHR '':'' \<in> set (the (env ''AGENT_ID''))
            then split_first (the (env ''AGENT_ID'')) else the (env ''AGENT_ID'')),
         ConversationsDelete cid]) \<and>
   (strip line = [] \<longrightarrow>
      remote_calls (fst (chat_loop w a c n (line # rest))) = remote_calls (fst (chat_loop w a c n rest)) \<and>
      snd (chat_loop w a c n (line # rest)) = snd (chat_loop w a c n rest)) \<and>
   (lower (strip line) \<in> set [''quit'', ''exit'', ''q''] \<longrightarrow>
      chat_loop w a c n (line # rest) =
        ([Prompt (CHR 0x0A # ''You: ''), Call (ConversationsDelete c), Print ''Goodbye!''], Inr ()))"
proof (intro conjI impI; (elim conjE)?)
  assume a: "\<not> falsy (env ''AGENT_ID'')" "\<not> falsy (env ''PROJECT_ENDPOINT'')"
    "conversations_create w = Inr cid" and i: "stdin w = [''hello'', ''exit'']"
    and t: "items_create w 0 cid ''hello'' = Inr ()"
    "responses_create w 0 cid
        (if CHR '':'' \<in> set (the (env ''AGENT_ID''))
         then split_first (the (env ''AGENT_ID'')) else the (env ''AGENT_ID'')) = Inr reply"
  show "snd (chat_with_agent env w) = Inr ()"
    by (simp only: chat_with_agent_run(2) [OF a] i hello_exit [OF t] snd_conv)
  show "remote_calls (fst (chat_with_agent env w)) =
        [ConversationsCreate, ItemsCreate cid ''hello'',
         ResponsesCreate cid
           (if CHR '':'' \<in> set (the (env ''AGENT_ID''))
            then split_first (the (env ''AGENT_ID'')) else the (env ''AGENT_ID'')),
         ConversationsDelete cid]"
    by (simp only: chat_with_agent_run(1) [OF a] i hello_exit [OF t] fst_conv remote_calls.simps)
next
  assume b: "strip line = []"
  show "remote_calls (fst (chat_loop w a c n (line # rest))) = remote_calls (fst (chat_loop w a c n rest))"
    by (simp only: chat_loop_blank [OF b] fst_conv remote_calls.simps)
  show "snd (chat_loop w a c n (line # rest)) = snd (chat_loop w a c n rest)"
    by (simp only: chat_loop_blank [OF b] snd_conv)
next
  assume "lower (strip line) \<in> set [''quit'', ''exit'', ''q'']"
  then show "chat_loop w a c n (line # rest) =
        ([Prompt (CHR 0x0A # ''You: ''), Call (ConversationsDelete c), Print ''Goodbye!''], Inr ())"
    by (rule chat_loop_exit)
qed

text \<open>
  C6, on a service that refuses every deletion, with the tokens \<open>Quit\<close>, \<open>EXIT\<close> and \<open>Q\<close>.
\<close>

theorem chat_session_witness:
  "snd (chat_with_agent
      [''PROJECT_ENDPOINT'' \<mapsto> ''https://example.invalid'', ''AGENT_ID'' \<mapsto> ''IaCDocumentAgent:1'']
      refusing_world) = Inr () \<and>
   remote_calls (fst (chat_with_agent
      [''PROJECT_ENDPOINT'' \<mapsto> ''https://example.invalid'', ''AGENT_ID'' \<mapsto> ''IaCDocumentAgent:1'']
      refusing_world)) =
     [ConversationsCreate, ItemsCreate ''conv-1'' ''hello'',
      ResponsesCreate ''conv-1'' ''IaCDocumentAgent'', ConversationsDelete ''conv-1''] \<and>
   remote_calls (fst (chat_loop refusing_world ''IaCDocumentAgent'' ''conv-1'' 0 [''   '', '' Quit ''])) =
     remote_calls (fst (chat_loop refusing_world ''IaCDocumentAgent'' ''conv-1'' 0 ['' Quit ''])) \<and>
   chat_loop refusing_world ''IaCDocumentAgent'' ''conv-1'' 0 ['' Quit ''] =
     ([Prompt (CHR 0x0A # ''You: ''), Call (ConversationsDelete ''conv-1''), Print ''Goodbye!''], Inr ()) \<and>
   chat_loop refusing_world ''IaCDocumentAgent'' ''conv-1'' 0 [''EXIT''] =
     ([Prompt (CHR 0x0A # ''You: ''), Call (ConversationsDelete ''conv-1''), Print ''Goodbye!''], Inr ()) \<and>
   chat_loop refusing_world ''IaCDocumentAgent'' ''conv-1'' 0 [''Q''] =
     ([Prompt (CHR 0x0A # ''You: ''), Call (ConversationsDelete ''conv-1''), Print ''Goodbye!''], Inr ())"
proof -
  have k: "strip ''   '' = []" "lower (strip '' Quit '') = ''quit''" "lower (strip ''EXIT'') = ''exit''"
    "lower (strip ''Q'') = ''q''" "split_first ''IaCDocumentAgent:1'' = ''IaCDocumentAgent''"
    by code_simp+
  have r: "stdin refusing_world = [''hello'', ''exit'']" "conversations_create refusing_world = Inr ''conv-1''"
    "items_create refusing_world 0 ''conv-1'' ''hello'' = Inr ()"
    "responses_create refusing_world 0 ''conv-1'' ''IaCDocumentAgent'' = Inr ''Hi.''"
    by (simp_all add: refusing_world_def steady_world_def)
  show ?thesis
    using chat_session [where
        env = "[''PROJECT_ENDPOINT'' \<mapsto> ''https://example.invalid'', ''AGENT_ID'' \<mapsto> ''IaCDocumentAgent:1'']"
        and w = refusing_world and cid = "''conv-1''" and reply = "''Hi.''" and line = "''   ''"
        and rest = "['' Quit '']" and a = "''IaCDocumentAgent''" and c = "''conv-1''" and n = 0]
      chat_session [where w = refusing_world and line = "'' Quit ''" and rest = "[]"
        and a = "''IaCDocumentAgent''" and c = "''conv-1''" and n = 0, THEN conjunct2, THEN conjunct2]
      chat_session [where w = refusing_world and line = "''EXIT''" and rest = "[]"
        and a = "''IaCDocumentAgent''" and c = "''conv-1''" and n = 0, THEN conjunct2, THEN conjunct2]
      chat_session [where w = refusing_world and line = "''Q''" and rest = "[]"
        and a = "''IaCDocumentAgent''" and c = "''conv-1''" and n = 0, THEN conjunct2, THEN conjunct2]
    by (simp add: k r falsy_def del: chat_loop.simps)
qed

lemma split_first_parts:
  assumes "CHR '':'' \<in> set s"
  shows "s = split_first s @ CHR '':'' # tl (dropWhile (\<lambda>c. c \<noteq> CHR '':'') s)"
proof -
  let ?P = "\<lambda>c. c \<noteq> CHR '':''"
  from assms have "dropWhile ?P s \<noteq> []" by (auto simp: dropWhile_eq_Nil_conv)
  moreover have "dropWhile ?P s \<noteq> [] \<Longrightarrow> hd (dropWhile ?P s) = CHR '':''"
    using hd_dropWhile [of ?P s] by auto
  ultimately have "dropWhile ?P s = CHR '':'' # tl (dropWhile ?P s)"
    by (metis list.collapse)
  moreover have "s = takeWhile ?P s @ dropWhile ?P s" by simp
  ultimately show ?thesis unfolding split_first_def by metis
qed

lemma chat_name_only:
  assumes "\<not> falsy (env ''AGENT_ID'')" and "\<not> falsy (env ''PROJECT_ENDPOINT'')"
    and "ResponsesCreate c nm \<in> set (remote_calls (fst (chat_with_agent env w)))"
  shows "nm = (if CHR '':'' \<in> set (the (env ''AGENT_ID''))
               then split_first (the (env ''AGENT_ID'')) else the (env ''AGENT_ID''))"
proof (cases "conversations_create w")
  case (Inl e)
  from assms(3) show ?thesis
    by (simp add: chat_with_agent_no_conversation [OF assms(1,2) Inl])
next
  case (Inr cid)
  from assms(3) chat_loop_agent show ?thesis
    unfolding chat_with_agent_run(1) [OF assms(1,2) Inr] by fastforce
qed

lemma chat_greeting:
  assumes "\<not> falsy (env ''AGENT_ID'')"
  shows "take 1 (printed (fst (chat_with_agent env w))) =
     [''Starting chat with Standard Agent '' @ [CHR 0x27] @
        (if CHR '':'' \<in> set (the (env ''AGENT_ID''))
         then split_first (the (env ''AGENT_ID'')) else the (env ''AGENT_ID'')) @ [CHR 0x27] @ ''...'']"
  using assms
  by (simp add: chat_with_agent_def fst_bind snd_bind run_print Let_def split: sum.splits)

text \<open>
  C9. For an agent id with two or more colons, the chat session addresses the agent
  named by the text before the first colon, the teardown the agent named by the text
  before the last colon, and the two names differ.
\<close>

theorem chat_and_delete_parse_differently:
  assumes "env ''AGENT_ID'' = Some agent_id" and "2 \<le> count_list agent_id CHR '':''"
    and "\<not> falsy (env ''PROJECT_ENDPOINT'')"
  shows "(\<forall>c nm. ResponsesCreate c nm \<in> set (remote_calls (fst (chat_with_agent env w))) \<longrightarrow>
            nm = split_first agent_id) \<and>
         take 1 (printed (fst (chat_with_agent env w))) =
           [''Starting chat with Standard Agent '' @ [CHR 0x27] @ split_first agent_id @ [CHR 0x27] @ ''...''] \<and>
         take 1 (remote_calls (fst (delete_agent_and_resources env w))) =
           [DeleteVersion (fst (rsplit1 agent_id)) (snd (rsplit1 agent_id))] \<and>
         agent_id = split_first agent_id @ CHR '':'' # tl (dropWhile (\<lambda>c. c \<noteq> CHR '':'') agent_id) \<and>
         CHR '':'' \<notin> set (split_first agent_id) \<and>
         agent_id = fst (rsplit1 agent_id) @ CHR '':'' # snd (rsplit1 agent_id) \<and>
         CHR '':'' \<notin> set (snd (rsplit1 agent_id)) \<and>
         split_first agent_id \<noteq> fst (rsplit1 agent_id)"
proof -
  from assms(2) have c: "CHR '':'' \<in> set agent_id"
    using count_list_0 [of "CHR '':''" agent_id] by fastforce
  then have ne: "agent_id \<noteq> []" by auto
  with assms(1) have f: "\<not> falsy (env ''AGENT_ID'')" by (simp add: falsy_def)
  have 1: "\<forall>c nm. ResponsesCreate c nm \<in> set (remote_calls (fst (chat_with_agent env w))) \<longrightarrow>
            nm = split_first agent_id"
    using chat_name_only [of env _ _ w] f assms(1,3) c by auto
  have 2: "take 1 (printed (fst (chat_with_agent env w))) =
           [''Starting chat with Standard Agent '' @ [CHR 0x27] @ split_first agent_id @ [CHR 0x27] @ ''...'']"
    using chat_greeting [of env w] f assms(1) c by simp
  have 3: "take 1 (remote_calls (fst (delete_agent_and_resources env w))) =
           [DeleteVersion (fst (rsplit1 agent_id)) (snd (rsplit1 agent_id))]"
    using teardown_calls [of env w] assms(1,3) f c by (simp add: case_prod_beta)
  from 1 2 3 split_first_parts [OF c] split_first_no_colon [of agent_id] rsplit1_parts [OF c]
    names_differ [OF assms(2)]
  show ?thesis by blast
qed

text \<open>
  C9, at the id \<open>"A:B:3"\<close>: chat addresses \<open>"A"\<close>, teardown \<open>"A:B"\<close>.
\<close>

theorem chat_and_delete_parse_differently_witness:
  "ResponsesCreate ''conv-1'' ''A'' \<in> set (remote_calls (fst (chat_with_agent
      [''PROJECT_ENDPOINT'' \<mapsto> ''https://example.invalid'', ''AGENT_ID'' \<mapsto> ''A:B:3'']
      steady_world))) \<and>
   take 1 (remote_calls (fst (delete_agent_and_resources
      [''PROJECT_ENDPOINT'' \<mapsto> ''https://example.invalid'', ''AGENT_ID'' \<mapsto> ''A:B:3'']
      steady_world))) = [DeleteVersion ''A:B'' ''3'']"
proof -
  have k: "split_first ''A:B:3'' = ''A''" "rsplit1 ''A:B:3'' = (''A:B'', ''3'')"
    "count_list ''A:B:3'' CHR '':'' = 2"
    by code_simp+
  have m: "ResponsesCreate ''conv-1'' ''A'' \<in> set (remote_calls (fst (chat_with_agent
      [''PROJECT_ENDPOINT'' \<mapsto> ''https://example.invalid'', ''AGENT_ID'' \<mapsto> ''A:B:3'']
      steady_world)))"
    by code_simp
  show ?thesis
    using chat_and_delete_parse_differently [where
        env = "[''PROJECT_ENDPOINT'' \<mapsto> ''https://example.invalid'', ''AGENT_ID'' \<mapsto> ''A:B:3'']"
        and agent_id = "''A:B:3''" and w = steady_world,
        THEN conjunct2, THEN conjunct2, THEN conjunct1] m
    by (simp add: k falsy_def)
qed

subsection \<open>Readiness wait\<close>

lemma polls_append: "polls (a @ b) = polls a + polls b"
  by (induction a rule: polls.induct) simp_all

lemma polls_pending: "polls (concat (replicate k [Call (VectorStoresRetrieve vs), Sleep d])) = k"
  by (induction k) simp_all

lemma wait_loop_pending:
  assumes "vector_stores_retrieve w n vs = Inr v" and "\<not> terminal (status v)"
  shows "wait_loop w vs n t = wait_loop w vs (Suc n) (t @ [Call (VectorStoresRetrieve vs), Sleep 1])"
  using assms by (subst wait_loop.simps) (simp add: terminal_def)

lemma wait_loop_completed:
  assumes "vector_stores_retrieve w n vs = Inr v" and "status v = ''completed''"
  shows "wait_loop w vs n t =
     Some (t @ [Call (VectorStoresRetrieve vs), Print ''  Vector store ready!''], Inr ())"
  using assms by (subst wait_loop.simps) simp

lemma wait_loop_failed:
  assumes "vector_stores_retrieve w n vs = Inr v" and "status v = ''failed''"
  shows "wait_loop w vs n t =
     Some (t @ [Call (VectorStoresRetrieve vs)],
       Inl (Raised (RuntimeError (''Vector store creation failed: '' @ vs_repr v))))"
  using assms by (subst wait_loop.simps) simp

lemma wait_loop_error:
  assumes "vector_stores_retrieve w n vs = Inl e"
  shows "wait_loop w vs n t = Some (t @ [Call (VectorStoresRetrieve vs)], Inl (Raised e))"
  using assms by (subst wait_loop.simps) simp

lemma scripted_append:
  "scripted w vs n (ps @ qs) = (scripted w vs n ps \<and> scripted w vs (n + length ps) qs)"
  by (induction ps arbitrary: n) auto

lemma wait_loop_script:
  assumes "scripted w vs n ps" and "\<forall>p\<in>set ps. \<not> terminal p"
  shows "wait_loop w vs n t =
     wait_loop w vs (n + length ps)
       (t @ concat (replicate (length ps) [Call (VectorStoresRetrieve vs), Sleep 1]))"
  using assms
proof (induction ps arbitrary: n t)
  case Nil
  then show ?case by simp
next
  case (Cons p ps)
  from Cons.prems obtain v where v: "vector_stores_retrieve w n vs = Inr v" "status v = p"
    by (auto split: sum.splits)
  with Cons.prems have "\<not> terminal (status v)" by simp
  from wait_loop_pending [OF v(1) this]
  have "wait_loop w vs n t = wait_loop w vs (Suc n) (t @ [Call (VectorStoresRetrieve vs), Sleep 1])" .
  also have "\<dots> = wait_loop w vs (Suc n + length ps)
       ((t @ [Call (VectorStoresRetrieve vs), Sleep 1]) @
         concat (replicate (length ps) [Call (VectorStoresRetrieve vs), Sleep 1]))"
    using Cons.prems by (intro Cons.IH) simp_all
  finally show ?case by simp
qed

lemma wait_loop_sound:
  assumes "wait_loop w vs n t = Some y"
  shows "\<exists>k. (\<forall>i. n \<le> i \<and> i < n + k \<longrightarrow>
              (\<exists>v. vector_stores_retrieve w i vs = Inr v \<and> \<not> terminal (status v))) \<and>
           (case vector_stores_retrieve w (n + k) vs of
              Inl e \<Rightarrow> y = (t @ concat (replicate k [Call (VectorStoresRetrieve vs), Sleep 1]) @
                            [Call (VectorStoresRetrieve vs)], Inl (Raised e))
            | Inr v \<Rightarrow>
                (status v = ''completed'' \<and>
                 y = (t @ concat (replicate k [Call (VectorStoresRetrieve vs), Sleep 1]) @
                        [Call (VectorStoresRetrieve vs), Print ''  Vector store ready!''], Inr ())) \<or>
                (status v = ''failed'' \<and>
                 y = (t @ concat (replicate k [Call (VectorStoresRetrieve vs), Sleep 1]) @
                        [Call (VectorStoresRetrieve vs)],
                      Inl (Raised (RuntimeError (''Vector store creation failed: '' @ vs_repr v))))))"
proof (induction rule: wait_loop.raw_induct [OF _ assms])
  case (1 f w vs n t y)
  show ?case
  proof (cases "vector_stores_retrieve w n vs")
    case (Inl e)
    with 1(2) show ?thesis by (intro exI [of _ 0]) auto
  next
    case (Inr v)
    show ?thesis
    proof (cases "terminal (status v)")
      case True
      with 1(2) Inr show ?thesis by (intro exI [of _ 0]) (auto simp: terminal_def)
    next
      case False
      with 1(2) Inr have "f w vs (n + 1) (t @ [Call (VectorStoresRetrieve vs), Sleep 1]) = Some y"
        by (simp add: terminal_def)
      from 1(1) [OF this] obtain k where
        k: "\<forall>i. n + 1 \<le> i \<and> i < n + 1 + k \<longrightarrow>
              (\<exists>v. vector_stores_retrieve w i vs = Inr v \<and> \<not> terminal (status v))"
        "(case vector_stores_retrieve w (n + 1 + k) vs of
              Inl e \<Rightarrow> y = ((t @ [Call (VectorStoresRetrieve vs), Sleep 1]) @
                            concat (replicate k [Call (VectorStoresRetrieve vs), Sleep 1]) @
                            [Call (VectorStoresRetrieve vs)], Inl (Raised e))
            | Inr v \<Rightarrow>
                (status v = ''completed'' \<and>
                 y = ((t @ [Call (VectorStoresRetrieve vs), Sleep 1]) @
                        concat (replicate k [Call (VectorStoresRetrieve vs), Sleep 1]) @
                        [Call (VectorStoresRetrieve vs), Print ''  Vector store ready!''], Inr ())) \<or>
                (status v = ''failed'' \<and>
                 y = ((t @ [Call (VectorStoresRetrieve vs), Sleep 1]) @
                        concat (replicate k [Call (VectorStoresRetrieve vs), Sleep 1]) @
                        [Call (VectorStoresRetrieve vs)],
                      Inl (Raised (RuntimeError (''Vector store creation failed: '' @ vs_repr v))))))"
        by blast
      have a: "\<forall>i. n \<le> i \<and> i < n + Suc k \<longrightarrow>
              (\<exists>v. vector_stores_retrieve w i vs = Inr v \<and> \<not> terminal (status v))"
      proof (intro allI impI)
        fix i assume i: "n \<le> i \<and> i < n + Suc k"
        show "\<exists>v. vector_stores_retrieve w i vs = Inr v \<and> \<not> terminal (status v)"
        proof (cases "i = n")
          case True
          with Inr False show ?thesis by simp
        next
          case False
          with i have "n + 1 \<le> i \<and> i < n + 1 + k" by simp
          with k(1) show ?thesis by blast
        qed
      qed
      show ?thesis
        by (rule exI [of _ "Suc k"]) (use a k(2) in \<open>simp split: sum.splits\<close>)
    qed
  qed
qed

lemma wait_loop_script_completed:
  assumes "scripted w vs 0 (ps @ [''completed''])" and "\<forall>p\<in>set ps. \<not> terminal p"
  shows "wait_loop w vs 0 [] =
     Some (concat (replicate (length ps) [Call (VectorStoresRetrieve vs), Sleep 1]) @
             [Call (VectorStoresRetrieve vs), Print ''  Vector store ready!''], Inr ())"
proof -
  from assms(1) have p: "scripted w vs 0 ps" and "scripted w vs (length ps) [''completed'']"
    by (simp_all add: scripted_append)
  then obtain v where v: "vector_stores_retrieve w (length ps) vs = Inr v" "status v = ''completed''"
    by (auto split: sum.splits)
  show ?thesis
    using wait_loop_script [OF p assms(2), of "[]"] wait_loop_completed [OF v] by simp
qed

lemma wait_loop_script_failed:
  assumes "scripted w vs 0 (ps @ [''failed''])" and "\<forall>p\<in>set ps. \<not> terminal p"
  shows "\<exists>m. wait_loop w vs 0 [] =
     Some (concat (replicate (length ps) [Call (VectorStoresRetrieve vs), Sleep 1]) @
             [Call (VectorStoresRetrieve vs)], Inl (Raised (RuntimeError m)))"
proof -
  from assms(1) have p: "scripted w vs 0 ps" and "scripted w vs (length ps) [''failed'']"
    by (simp_all add: scripted_append)
  then obtain v where v: "vector_stores_retrieve w (length ps) vs = Inr v" "status v = ''failed''"
    by (auto split: sum.splits)
  show ?thesis
    using wait_loop_script [OF p assms(2), of "[]"] wait_loop_failed [OF v] by simp
qed

lemma wait_loop_only:
  assumes "wait_loop w vs 0 [] = Some (t, r)"
  shows "0 < polls t \<and>
     (\<forall>i<polls t - 1. \<exists>v. vector_stores_retrieve w i vs = Inr v \<and> \<not> terminal (status v)) \<and>
     (case vector_stores_retrieve w (polls t - 1) vs of
        Inl e \<Rightarrow> r = Inl (Raised e)
      | Inr v \<Rightarrow>
          (status v = ''completed'' \<and> r = Inr ()) \<or>
          (status v = ''failed'' \<and>
           r = Inl (Raised (RuntimeError (''Vector store creation failed: '' @ vs_repr v)))))"
proof -
  from wait_loop_sound [OF assms] obtain k where
    a: "\<forall>i. 0 \<le> i \<and> i < 0 + k \<longrightarrow>
              (\<exists>v. vector_stores_retrieve w i vs = Inr v \<and> \<not> terminal (status v))"
    and b: "(case vector_stores_retrieve w (0 + k) vs of
              Inl e \<Rightarrow> (t, r) = ([] @ concat (replicate k [Call (VectorStoresRetrieve vs), Sleep 1]) @
                            [Call (VectorStoresRetrieve vs)], Inl (Raised e))
            | Inr v \<Rightarrow>
                (status v = ''completed'' \<and>
                 (t, r) = ([] @ concat (replicate k [Call (VectorStoresRetrieve vs), Sleep 1]) @
                        [Call (VectorStoresRetrieve vs), Print ''  Vector store ready!''], Inr ())) \<or>
                (status v = ''failed'' \<and>
                 (t, r) = ([] @ concat (replicate k [Call (VectorStoresRetrieve vs), Sleep 1]) @
                        [Call (VectorStoresRetrieve vs)],
                      Inl (Raised (RuntimeError (''Vector store creation failed: '' @ vs_repr v))))))"
    by blast
  from b have p: "polls t = Suc k"
    by (auto simp: polls_append polls_pending split: sum.splits)
  from a b show ?thesis unfolding p by (auto split: sum.splits)
qed

text \<open>
  C1. The readiness wait queries the status once per poll until a terminal status
  appears. For a scripted sequence of non-terminal statuses followed by \<open>completed\<close> it
  returns after one poll per status; followed by \<open>failed\<close> it raises \<open>RuntimeError\<close>
  after one poll per status. So \<open>[in_progress, in_progress, completed]\<close> returns after
  3 polls and \<open>[in_progress, failed]\<close> raises after 2. Whenever the wait ends, every
  poll before the last saw a non-terminal status; it returned only if the last poll saw
  \<open>completed\<close>, and it raised only if the last poll saw \<open>failed\<close> or the query itself
  raised.
\<close>

theorem readiness_wait:
  "(scripted w vs 0 (ps @ [s]) \<and> (\<forall>p\<in>set ps. \<not> terminal p) \<longrightarrow>
      (s = ''completed'' \<longrightarrow>
         wait_loop w vs 0 [] =
           Some (concat (replicate (length ps) [Call (VectorStoresRetrieve vs), Sleep 1]) @
                   [Call (VectorStoresRetrieve vs), Print ''  Vector store ready!''], Inr ()) \<and>
         polls (concat (replicate (length ps) [Call (VectorStoresRetrieve vs), Sleep 1]) @
                   [Call (VectorStoresRetrieve vs), Print ''  Vector store ready!'']) = length ps + 1) \<and>
      (s = ''failed'' \<longrightarrow>
         (\<exists>m. wait_loop w vs 0 [] =
           Some (concat (replicate (length ps) [Call (VectorStoresRetrieve vs), Sleep 1]) @
                   [Call (VectorStoresRetrieve vs)], Inl (Raised (RuntimeError m)))) \<and>
         polls (concat (replicate (length ps) [Call (VectorStoresRetrieve vs), Sleep 1]) @
                   [Call (VectorStoresRetrieve vs)]) = length ps + 1)) \<and>
   (scripted w vs 0 [''in_progress'', ''in_progress'', ''completed''] \<longrightarrow>
      (\<exists>t. wait_loop w vs 0 [] = Some (t, Inr ()) \<and> polls t = 3)) \<and>
   (scripted w vs 0 [''in_progress'', ''failed''] \<longrightarrow>
      (\<exists>t m. wait_loop w vs 0 [] = Some (t, Inl (Raised (RuntimeError m))) \<and> polls t = 2)) \<and>
   (wait_loop w vs 0 [] = Some (t, r) \<longrightarrow>
      0 < polls t \<and>
      (\<forall>i<polls t - 1. \<exists>v. vector_stores_retrieve w i vs = Inr v \<and> \<not> terminal (status v)) \<and>
      (case vector_stores_retrieve w (polls t - 1) vs of
         Inl e \<Rightarrow> r = Inl (Raised e)
       | Inr v \<Rightarrow>
           (status v = ''completed'' \<and> r = Inr ()) \<or>
           (status v = ''failed'' \<and>
            r = Inl (Raised (RuntimeError (''Vector store creation failed: '' @ vs_repr v))))))"
proof (intro conjI impI; (elim conjE)?)
  assume a: "scripted w vs 0 (ps @ [s])" "\<forall>p\<in>set ps. \<not> terminal p" and s: "s = ''completed''"
  show "wait_loop w vs 0 [] =
           Some (concat (replicate (length ps) [Call (VectorStoresRetrieve vs), Sleep 1]) @
                   [Call (VectorStoresRetrieve vs), Print ''  Vector store ready!''], Inr ())"
    using wait_loop_script_completed [of w vs ps] a s by simp
  show "polls (concat (replicate (length ps) [Call (VectorStoresRetrieve vs), Sleep 1]) @
                   [Call (VectorStoresRetrieve vs), Print ''  Vector store ready!'']) = length ps + 1"
    by (simp add: polls_append polls_pending)
next
  assume a: "scripted w vs 0 (ps @ [s])" "\<forall>p\<in>set ps. \<not> terminal p" and s: "s = ''failed''"
  show "\<exists>m. wait_loop w vs 0 [] =
           Some (concat (replicate (length ps) [Call (VectorStoresRetrieve vs), Sleep 1]) @
                   [Call (VectorStoresRetrieve vs)], Inl (Raised (RuntimeError m)))"
    using wait_loop_script_failed [of w vs ps] a s by simp
  show "polls (concat (replicate (length ps) [Call (VectorStoresRetrieve vs), Sleep 1]) @
                   [Call (VectorStoresRetrieve vs)]) = length ps + 1"
    by (simp add: polls_append polls_pending)
next
  assume "scripted w vs 0 [''in_progress'', ''in_progress'', ''completed'']"
  then have "scripted w vs 0 ([''in_progress'', ''in_progress''] @ [''completed''])" by simp
  from wait_loop_script_completed [OF this]
  show "\<exists>t. wait_loop w vs 0 [] = Some (t, Inr ()) \<and> polls t = 3"
    by (simp add: terminal_def)
next
  assume "scripted w vs 0 [''in_progress'', ''failed'']"
  then have "scripted w vs 0 ([''in_progress''] @ [''failed''])" by simp
  from wait_loop_script_failed [OF this]
  show "\<exists>t m. wait_loop w vs 0 [] = Some (t, Inl (Raised (RuntimeError m))) \<and> polls t = 2"
    by (auto simp: terminal_def)
next
  assume a: "wait_loop w vs 0 [] = Some (t, r)"
  from wait_loop_only [OF a] show "0 < polls t" by blast
  from wait_loop_only [OF a]
  show "\<forall>i<polls t - 1. \<exists>v. vector_stores_retrieve w i vs = Inr v \<and> \<not> terminal (status v)" by blast
  from wait_loop_only [OF a]
  show "case vector_stores_retrieve w (polls t - 1) vs of
         Inl e \<Rightarrow> r = Inl (Raised e)
       | Inr v \<Rightarrow>
           (status v = ''completed'' \<and> r = Inr ()) \<or>
           (status v = ''failed'' \<and>
            r = Inl (Raised (RuntimeError (''Vector store creation failed: '' @ vs_repr v))))" by blast
qed

text \<open>
  C1, on a store that completes at the third poll and on one that fails at the second.
\<close>

theorem readiness_wait_witness:
  "wait_loop steady_world ''vs-1'' 0 [] =
     Some ([Call (VectorStoresRetrieve ''vs-1''), Sleep 1, Call (VectorStoresRetrieve ''vs-1''), Sleep 1,
            Call (VectorStoresRetrieve ''vs-1''), Print ''  Vector store ready!''], Inr ()) \<and>
   polls [Call (VectorStoresRetrieve ''vs-1''), Sleep 1, Call (VectorStoresRetrieve ''vs-1''), Sleep 1,
            Call (VectorStoresRetrieve ''vs-1''), Print ''  Vector store ready!''] = 3 \<and>
   (\<exists>m. wait_loop failing_store_world ''vs-1'' 0 [] =
     Some ([Call (VectorStoresRetrieve ''vs-1''), Sleep 1, Call (VectorStoresRetrieve ''vs-1'')],
           Inl (Raised (RuntimeError m))))"
proof -
  have a: "scripted steady_world ''vs-1'' 0 ([''in_progress'', ''in_progress''] @ [''completed''])"
    "scripted failing_store_world ''vs-1'' 0 ([''in_progress''] @ [''failed''])"
    by code_simp+
  have b: "\<forall>p\<in>set [''in_progress'', ''in_progress'']. \<not> terminal p"
    "\<forall>p\<in>set [''in_progress'']. \<not> terminal p"
    by (simp_all add: terminal_def)
  from readiness_wait [where w = steady_world and vs = "''vs-1''"
        and ps = "[''in_progress'', ''in_progress'']" and s = "''completed''", THEN conjunct1] a(1) b(1)
  have 1: "wait_loop steady_world ''vs-1'' 0 [] =
     Some ([Call (VectorStoresRetrieve ''vs-1''), Sleep 1, Call (VectorStoresRetrieve ''vs-1''), Sleep 1,
            Call (VectorStoresRetrieve ''vs-1''), Print ''  Vector store ready!''], Inr ())"
    by (simp add: numeral_2_eq_2)
  from readiness_wait [where w = failing_store_world and vs = "''vs-1''"
        and ps = "[''in_progress'']" and s = "''failed''", THEN conjunct1] a(2) b(2)
  have 2: "\<exists>m. wait_loop failing_store_world ''vs-1'' 0 [] =
     Some ([Call (VectorStoresRetrieve ''vs-1''), Sleep 1, Call (VectorStoresRetrieve ''vs-1'')],
           Inl (Raised (RuntimeError m)))"
    by simp
  from 1 2 show ?thesis by simp
qed

subsection \<open>Provisioning chain\<close>

lemma creates_agent_append: "creates_agent (a @ b) = (creates_agent a \<or> creates_agent b)"
  by (induction a rule: creates_agent.induct) simp_all

lemma creates_agent_pending:
  "\<not> creates_agent (concat (replicate k [Call (VectorStoresRetrieve vs), Sleep d]))"
  by (induction k) simp_all



lemma upload_and_index_cases:
  "upload_and_index env w =
     (if falsy (env ''PROJECT_ENDPOINT'')
      then ([Print ''Creating Standard Agent with Vector Store...''],
            Inl (Raised (ValueError ''PROJECT_ENDPOINT environment variable is required'')))
      else if \<not> docs_exists w
      then ([Print ''Creating Standard Agent with Vector Store...'', Print ''  Uploading document...''],
            Inl (Raised (FileNotFoundError (''Document not found: '' @ docs_path w))))
      else case files_create w ''assistants'' of
        Inl e \<Rightarrow>
          ([Print ''Creating Standard Agent with Vector Store...'', Print ''  Uploading document...'',
            Call (FilesCreate ''assistants'')], Inl (Raised e))
      | Inr file_id \<Rightarrow>
          (case vector_stores_create w ''ProductDocsVectorStore'' [file_id] of
             Inl e \<Rightarrow>
               ([Print ''Creating Standard Agent with Vector Store...'', Print ''  Uploading document...'',
                 Call (FilesCreate ''assistants''), Print (''  FILE_ID: '' @ file_id),
                 Print ''  Creating vector store...'',
                 Call (VectorStoresCreate ''ProductDocsVectorStore'' [file_id])], Inl (Raised e))
           | Inr vs_id \<Rightarrow>
               ([Print ''Creating Standard Agent with Vector Store...'', Print ''  Uploading document...'',
                 Call (FilesCreate ''assistants''), Print (''  FILE_ID: '' @ file_id),
                 Print ''  Creating vector store...'',
                 Call (VectorStoresCreate ''ProductDocsVectorStore'' [file_id]),
                 Print (''  VECTORSTORE_ID: '' @ vs_id),
                 Print ''  Waiting for vector store processing...''],
                Inr (environ_get env ''CHAT_MODEL_DEPLOYMENT'' ''gpt-4.1-mini'', file_id, vs_id))))"
  by (simp add: upload_and_index_def get_project_client_iac_def bind_def return_def print_def
        raise_def call_def Let_def split: sum.splits)

lemma create_standard_agent_cases:
  "create_standard_agent w md file_id vs_id =
     (case create_version w ''IaCDocumentAgent''
             \<lparr>model = md, instructions = product_instructions, tools = [FileSearchTool [vs_id]]\<rparr> of
        Inl e \<Rightarrow>
          ([Print ''  Creating Standard Agent...'',
            Call (CreateVersion ''IaCDocumentAgent''
              \<lparr>model = md, instructions = product_instructions, tools = [FileSearchTool [vs_id]]\<rparr>)],
           Inl (Raised e))
      | Inr agent_id \<Rightarrow>
          ([Print ''  Creating Standard Agent...'',
            Call (CreateVersion ''IaCDocumentAgent''
              \<lparr>model = md, instructions = product_instructions, tools = [FileSearchTool [vs_id]]\<rparr>),
            Print (''  AGENT_ID: '' @ agent_id), Print [], Print banner,
            Print ''Standard Agent created successfully!'', Print (''  Agent ID: '' @ agent_id),
            Print (''  Vector Store ID: '' @ vs_id), Print (''  File ID: '' @ file_id), Print banner],
           Inr (agent_id, vs_id, file_id)))"
  by (simp add: create_standard_agent_def bind_def return_def print_def call_def Let_def
        split: sum.splits)

lemma upload_and_index_quiet:
  "polls (fst (upload_and_index env w)) = 0"
  "\<not> creates_agent (fst (upload_and_index env w))"
  "azd_env_after (fst (upload_and_index env w)) st = st"
  "Call (VectorStoresRetrieve x) \<notin> set (fst (upload_and_index env w))"
  by (simp_all add: upload_and_index_cases split: sum.splits)

lemma create_standard_agent_quiet:
  "polls (fst (create_standard_agent w md file_id vs_id)) = 0"
  "azd_env_after (fst (create_standard_agent w md file_id vs_id)) st = st"
  "Call (VectorStoresRetrieve x) \<notin> set (fst (create_standard_agent w md file_id vs_id))"
  "Call (CreateVersion nm d) \<in> set (fst (create_standard_agent w md file_id vs_id)) \<Longrightarrow>
     tools d = [FileSearchTool [vs_id]] \<and> model d = md"
  by (auto simp: create_standard_agent_cases split: sum.splits)


lemma create_run_cases:
  assumes "create_agent_with_vector_store env w = Some (t, r)"
  obtains
    (early) a where "upload_and_index env w = (t, Inl a)" and "r = Inl a"
  | (query_error) t0 md fid vsid k e where
      "upload_and_index env w = (t0, Inr (md, fid, vsid))"
      and "\<forall>i<k. \<exists>v. vector_stores_retrieve w i vsid = Inr v \<and> \<not> terminal (status v)"
      and "vector_stores_retrieve w k vsid = Inl e"
      and "t = t0 @ concat (replicate k [Call (VectorStoresRetrieve vsid), Sleep 1]) @
                 [Call (VectorStoresRetrieve vsid)]"
      and "r = Inl (Raised e)"
  | (failed) t0 md fid vsid k v where
      "upload_and_index env w = (t0, Inr (md, fid, vsid))"
      and "\<forall>i<k. \<exists>v. vector_stores_retrieve w i vsid = Inr v \<and> \<not> terminal (status v)"
      and "vector_stores_retrieve w k vsid = Inr v" and "status v = ''failed''"
      and "t = t0 @ concat (replicate k [Call (VectorStoresRetrieve vsid), Sleep 1]) @
                 [Call (VectorStoresRetrieve vsid)]"
      and "r = Inl (Raised (RuntimeError (''Vector store creation failed: '' @ vs_repr v)))"
  | (completed) t0 md fid vsid k v where
      "upload_and_index env w = (t0, Inr (md, fid, vsid))"
      and "\<forall>i<k. \<exists>v. vector_stores_retrieve w i vsid = Inr v \<and> \<not> terminal (status v)"
      and "vector_stores_retrieve w k vsid = Inr v" and "status v = ''completed''"
      and "t = (t0 @ concat (replicate k [Call (VectorStoresRetrieve vsid), Sleep 1])) @
                 Call (VectorStoresRetrieve vsid) # Print ''  Vector store ready!'' #
                 fst (create_standard_agent w md fid vsid)"
      and "r = snd (create_standard_agent w md fid vsid)"
proof (cases "upload_and_index env w")
  case (Pair t0 r0)
  show ?thesis
  proof (cases r0)
    case (Inl a)
    with Pair assms have "upload_and_index env w = (t, Inl a)" "r = Inl a"
      by (simp_all add: create_agent_with_vector_store_def)
    then show ?thesis by (rule early)
  next
    case (Inr ids)
    obtain md fid vsid where ids: "ids = (md, fid, vsid)" by (cases ids)
    with Pair Inr have u: "upload_and_index env w = (t0, Inr (md, fid, vsid))" by simp
    with assms obtain y where y: "wait_loop w vsid 0 t0 = Some y"
      and tr: "(t, r) = bind y (\<lambda>_. create_standard_agent w md fid vsid)"
      by (auto simp: create_agent_with_vector_store_def split: option.splits)
    from wait_loop_sound [OF y] obtain k where
      p: "\<forall>i. 0 \<le> i \<and> i < 0 + k \<longrightarrow>
              (\<exists>v. vector_stores_retrieve w i vsid = Inr v \<and> \<not> terminal (status v))"
      and c: "(case vector_stores_retrieve w (0 + k) vsid of
              Inl e \<Rightarrow> y = (t0 @ concat (replicate k [Call (VectorStoresRetrieve vsid), Sleep 1]) @
                            [Call (VectorStoresRetrieve vsid)], Inl (Raised e))
            | Inr v \<Rightarrow>
                (status v = ''completed'' \<and>
                 y = (t0 @ concat (replicate k [Call (VectorStoresRetrieve vsid), Sleep 1]) @
                        [Call (VectorStoresRetrieve vsid), Print ''  Vector store ready!''], Inr ())) \<or>
                (status v = ''failed'' \<and>
                 y = (t0 @ concat (replicate k [Call (VectorStoresRetrieve vsid), Sleep 1]) @
                        [Call (VectorStoresRetrieve vsid)],
                      Inl (Raised (RuntimeError (''Vector store creation failed: '' @ vs_repr v))))))"
      by blast
    from p have p': "\<forall>i<k. \<exists>v. vector_stores_retrieve w i vsid = Inr v \<and> \<not> terminal (status v)"
      by simp
    show ?thesis
    proof (cases "vector_stores_retrieve w k vsid")
      case (Inl e)
      with c tr have "t = t0 @ concat (replicate k [Call (VectorStoresRetrieve vsid), Sleep 1]) @
                 [Call (VectorStoresRetrieve vsid)]" "r = Inl (Raised e)"
        by (simp_all add: bind_def)
      with u p' Inl show ?thesis by (rule query_error)
    next
      case v: (Inr v)
      show ?thesis
      proof (cases "status v = ''completed''")
        case True
        with c v tr have "t = (t0 @ concat (replicate k [Call (VectorStoresRetrieve vsid), Sleep 1])) @
                 Call (VectorStoresRetrieve vsid) # Print ''  Vector store ready!'' #
                 fst (create_standard_agent w md fid vsid)"
          "r = snd (create_standard_agent w md fid vsid)"
          by (simp_all add: bind_def split: prod.splits)
        with u p' v True show ?thesis by (rule completed)
      next
        case False
        with c v tr have "status v = ''failed''"
          "t = t0 @ concat (replicate k [Call (VectorStoresRetrieve vsid), Sleep 1]) @
                 [Call (VectorStoresRetrieve vsid)]"
          "r = Inl (Raised (RuntimeError (''Vector store creation failed: '' @ vs_repr v)))"
          by (simp_all add: bind_def)
        with u p' v show ?thesis by (rule failed)
      qed
    qed
  qed
qed


lemma retrieve_in_pending:
  "Call (VectorStoresRetrieve x) \<in> set (concat (replicate k [Call (VectorStoresRetrieve vs), Sleep d])) \<Longrightarrow>
     x = vs"
  by (induction k) auto

lemma trace_without_agent:
  assumes "fst (upload_and_index env w) = t0"
    and "t = t0 @ concat (replicate k [Call (VectorStoresRetrieve vsid), Sleep 1]) @
               [Call (VectorStoresRetrieve vsid)]"
  shows "\<not> creates_agent t" and "polls t - 1 = k"
    and "Call (VectorStoresRetrieve x) \<in> set t \<Longrightarrow> x = vsid"
proof -
  from assms(1) have q: "\<not> creates_agent t0" "polls t0 = 0" "Call (VectorStoresRetrieve x) \<notin> set t0"
    using upload_and_index_quiet(1,2,4) [where env = env and w = w] by simp_all
  show "\<not> creates_agent t"
    unfolding assms(2) using q(1) by (simp add: creates_agent_append creates_agent_pending)
  show "polls t - 1 = k"
    unfolding assms(2) using q(2) by (simp add: polls_append polls_pending)
  assume "Call (VectorStoresRetrieve x) \<in> set t"
  then have "Call (VectorStoresRetrieve x) \<in> set (concat (replicate k [Call (VectorStoresRetrieve vsid), Sleep 1]))
      \<or> x = vsid"
    unfolding assms(2) using q(3)
    by (simp only: set_append Un_iff list.set insert_iff empty_iff event.inject remote_call.inject) blast
  then show "x = vsid" using retrieve_in_pending by blast
qed

lemma trace_with_agent:
  assumes "fst (upload_and_index env w) = t0"
    and "t = (t0 @ concat (replicate k [Call (VectorStoresRetrieve vsid), Sleep 1])) @
               Call (VectorStoresRetrieve vsid) # Print ''  Vector store ready!'' #
               fst (create_standard_agent w md fid vsid)"
  shows "\<not> creates_agent (t0 @ concat (replicate k [Call (VectorStoresRetrieve vsid), Sleep 1]))"
    and "polls (t0 @ concat (replicate k [Call (VectorStoresRetrieve vsid), Sleep 1])) = k"
    and "polls t - 1 = k"
    and "Call (VectorStoresRetrieve x) \<in> set t \<Longrightarrow> x = vsid"
proof -
  from assms(1) have q: "\<not> creates_agent t0" "polls t0 = 0" "Call (VectorStoresRetrieve x) \<notin> set t0"
    using upload_and_index_quiet(1,2,4) [where env = env and w = w] by simp_all
  have c: "polls (fst (create_standard_agent w md fid vsid)) = 0"
    "Call (VectorStoresRetrieve x) \<notin> set (fst (create_standard_agent w md fid vsid))"
    using create_standard_agent_quiet(1,3) by simp_all
  show "\<not> creates_agent (t0 @ concat (replicate k [Call (VectorStoresRetrieve vsid), Sleep 1]))"
    using q(1) by (simp add: creates_agent_append creates_agent_pending)
  show "polls (t0 @ concat (replicate k [Call (VectorStoresRetrieve vsid), Sleep 1])) = k"
    using q(2) by (simp add: polls_append polls_pending)
  show "polls t - 1 = k"
    unfolding assms(2) using q(2) c(1) by (simp add: polls_append polls_pending)
  assume "Call (VectorStoresRetrieve x) \<in> set t"
  then have "Call (VectorStoresRetrieve x) \<in> set (concat (replicate k [Call (VectorStoresRetrieve vsid), Sleep 1]))
      \<or> x = vsid"
    unfolding assms(2) using q(3) c(2)
    by (simp only: set_append Un_iff list.set insert_iff empty_iff event.inject remote_call.inject event.distinct) blast
  then show "x = vsid" using retrieve_in_pending by blast
qed



subsection \<open>Identifiers after create\<close>

lemma create_agent_cases:
  "create_agent env w =
     (if falsy (env ''CHAT_MODEL_DEPLOYMENT'')
      then ([Print ''Error: CHAT_MODEL_DEPLOYMENT environment variable not set''], Inl (SysExit 1))
      else if falsy (env ''PROJECT_ENDPOINT'')
      then ([Print (''Creating Standard Agent: '' @ environ_get env ''AGENT_NAME'' ''OneDrive-Agent''),
             Print ''Error: PROJECT_ENDPOINT environment variable not set''], Inl (SysExit 1))
      else case create_version w (environ_get env ''AGENT_NAME'' ''OneDrive-Agent'')
                  \<lparr>model = the (env ''CHAT_MODEL_DEPLOYMENT''), instructions = AGENT_INSTRUCTIONS,
                     tools = get_function_tools\<rparr> of
        Inl e \<Rightarrow>
          ([Print (''Creating Standard Agent: '' @ environ_get env ''AGENT_NAME'' ''OneDrive-Agent''),
            Call (CreateVersion (environ_get env ''AGENT_NAME'' ''OneDrive-Agent'')
                  \<lparr>model = the (env ''CHAT_MODEL_DEPLOYMENT''), instructions = AGENT_INSTRUCTIONS,
                     tools = get_function_tools\<rparr>)], Inl (Raised e))
      | Inr agent_id \<Rightarrow>
          ([Print (''Creating Standard Agent: '' @ environ_get env ''AGENT_NAME'' ''OneDrive-Agent''),
            Call (CreateVersion (environ_get env ''AGENT_NAME'' ''OneDrive-Agent'')
                  \<lparr>model = the (env ''CHAT_MODEL_DEPLOYMENT''), instructions = AGENT_INSTRUCTIONS,
                     tools = get_function_tools\<rparr>),
            Print (''Created agent: '' @ agent_id),
            AzdEnvSet ''AGENT_ID'' agent_id,
            AzdEnvSet ''AGENT_NAME'' (environ_get env ''AGENT_NAME'' ''OneDrive-Agent''),
            Print [], Print banner, Print ''Standard Agent created successfully!'',
            Print (''  Agent ID: '' @ agent_id),
            Print (''  Agent Name: '' @ environ_get env ''AGENT_NAME'' ''OneDrive-Agent''),
            Print banner,
            Print (CHR 0x0A # ''Agent visible in Foundry portal under: Build > Agents > '' @
                     environ_get env ''AGENT_NAME'' ''OneDrive-Agent'')],
           Inr ()))"
  by (simp add: create_agent_def get_project_client_aid_def get_env_or_fail_def bind_def return_def
        print_def sys_exit_def call_def Let_def split: sum.splits)


lemma upload_prints:
  assumes "upload_and_index env w = (t0, Inr (md, fid, vsid))"
  shows "Print (''  FILE_ID: '' @ fid) \<in> set t0" and "Print (''  VECTORSTORE_ID: '' @ vsid) \<in> set t0"
    and "md = environ_get env ''CHAT_MODEL_DEPLOYMENT'' ''gpt-4.1-mini''"
  using assms by (auto simp: upload_and_index_cases split: if_splits sum.splits)






subsection \<open>Configuration errors\<close>

lemma creates_agent_mem: "Call (CreateVersion nm d) \<in> set t \<Longrightarrow> creates_agent t"
  by (induction t rule: creates_agent.induct) auto

lemma create_standard_agent_definition:
  assumes "Call (CreateVersion nm d) \<in> set (fst (create_standard_agent w md fid vsid))"
  shows "nm = ''IaCDocumentAgent''"
    and "d = \<lparr>model = md, instructions = product_instructions, tools = [FileSearchTool [vsid]]\<rparr>"
  using assms by (auto simp: create_standard_agent_cases split: sum.splits)

lemma no_endpoint_iac:
  assumes "falsy (env ''PROJECT_ENDPOINT'')"
  shows "create_agent_with_vector_store env w =
       Some ([Print ''Creating Standard Agent with Vector Store...''],
             Inl (Raised (ValueError ''PROJECT_ENDPOINT environment variable is required'')))"
    and "delete_agent_and_resources env w =
       ([Print ''Deleting Standard Agent and resources...''],
        Inl (Raised (ValueError ''PROJECT_ENDPOINT environment variable is required'')))"
  using assms
  by (simp_all add: create_agent_with_vector_store_def upload_and_index_cases
        delete_agent_and_resources_def get_project_client_iac_def bind_def print_def raise_def)

lemma no_endpoint_chat:
  assumes "falsy (env ''PROJECT_ENDPOINT'')" and "\<not> falsy (env ''AGENT_ID'')"
  shows "snd (chat_with_agent env w) =
       Inl (Raised (ValueError ''PROJECT_ENDPOINT environment variable is required''))"
    and "remote_calls (fst (chat_with_agent env w)) = []"
  using assms
  by (simp_all add: chat_with_agent_def get_project_client_iac_def fst_bind snd_bind run_print
        raise_def Let_def)

lemma no_endpoint_aid:
  assumes "falsy (env ''PROJECT_ENDPOINT'')"
  shows "\<not> falsy (env ''CHAT_MODEL_DEPLOYMENT'') \<Longrightarrow> create_agent env w =
       ([Print (''Creating Standard Agent: '' @ environ_get env ''AGENT_NAME'' ''OneDrive-Agent''),
         Print ''Error: PROJECT_ENDPOINT environment variable not set''], Inl (SysExit 1))"
    and "\<not> falsy (env ''AGENT_ID'') \<Longrightarrow> delete_agent env w =
       ([Print (''Deleting agent: '' @ environ_get env ''AGENT_NAME'' ''OneDrive-Agent'' @
                  '' (ID: '' @ the (env ''AGENT_ID'') @ '')''),
         Print ''Error: PROJECT_ENDPOINT environment variable not set''], Inl (SysExit 1))"
    and "list_agents env w =
       ([Print ''Standard Agents in project:'', Print rule_line,
         Print ''Error: PROJECT_ENDPOINT environment variable not set''], Inl (SysExit 1))"
  using assms
  by (simp_all add: create_agent_cases delete_agent_def list_agents_def get_project_client_aid_def
        get_env_or_fail_def bind_def print_def sys_exit_def try_except_def Let_def)

lemma no_model_aid:
  "falsy (env ''CHAT_MODEL_DEPLOYMENT'') \<Longrightarrow> create_agent env w =
     ([Print ''Error: CHAT_MODEL_DEPLOYMENT environment variable not set''], Inl (SysExit 1))"
  by (simp add: create_agent_cases)

lemma model_iac:
  assumes "create_agent_with_vector_store env w = Some (t, r)"
    and "Call (CreateVersion nm d) \<in> set t"
  shows "d = \<lparr>model = environ_get env ''CHAT_MODEL_DEPLOYMENT'' ''gpt-4.1-mini'',
              instructions = product_instructions, tools = tools d\<rparr>"
  using assms(1)
proof (cases rule: create_run_cases)
  case (early a)
  then have "fst (upload_and_index env w) = t" by simp
  with upload_and_index_quiet(2) [where env = env and w = w] creates_agent_mem [OF assms(2)]
  show ?thesis by simp
next
  case (query_error t0 md fid vsid k e)
  from query_error(1) have "fst (upload_and_index env w) = t0" by simp
  from trace_without_agent(1) [OF this query_error(4)] creates_agent_mem [OF assms(2)]
  show ?thesis by simp
next
  case (failed t0 md fid vsid k v)
  from failed(1) have "fst (upload_and_index env w) = t0" by simp
  from trace_without_agent(1) [OF this failed(5)] creates_agent_mem [OF assms(2)]
  show ?thesis by simp
next
  case (completed t0 md fid vsid k v)
  from completed(1) have t0: "fst (upload_and_index env w) = t0" by simp
  have "\<not> Call (CreateVersion nm d) \<in> set (t0 @ concat (replicate k [Call (VectorStoresRetrieve vsid), Sleep 1]))"
    using trace_with_agent(1) [OF t0 completed(5)] creates_agent_mem by blast
  with assms(2) have "Call (CreateVersion nm d) \<in> set (fst (create_standard_agent w md fid vsid))"
    unfolding completed(5)
    by (simp only: set_append Un_iff list.set insert_iff event.inject event.distinct
          remote_call.distinct simp_thms)
  from create_standard_agent_definition(2) [OF this] upload_prints(3) [OF completed(1)]
  show ?thesis by simp
qed


lemma instructions_given: "AGENT_INSTRUCTIONS \<noteq> []" "product_instructions \<noteq> []"
  by (simp_all add: AGENT_INSTRUCTIONS_def product_instructions_def)

text \<open>
  C7 (amended). With \<open>PROJECT_ENDPOINT\<close> unset or empty, every command that builds the
  project client ends before any remote call: Foundry-IaC-Agent raises \<open>ValueError\<close>
  with a message, AgentId prints an error and exits with code 1. With
  \<open>CHAT_MODEL_DEPLOYMENT\<close> unset or empty, \<open>create_agent\<close> of AgentId prints an error and
  exits with code 1. Foundry-IaC-Agent does not check the model: the definition it
  creates carries the value of \<open>CHAT_MODEL_DEPLOYMENT\<close>, or \<open>gpt-4.1-mini\<close> when the
  variable is unset. The instructions of both programs are non-empty constants.
\<close>

theorem config_errors:
  "(falsy (env ''PROJECT_ENDPOINT'') \<longrightarrow>
      create_agent_with_vector_store env w =
        Some ([Print ''Creating Standard Agent with Vector Store...''],
              Inl (Raised (ValueError ''PROJECT_ENDPOINT environment variable is required''))) \<and>
      delete_agent_and_resources env w =
        ([Print ''Deleting Standard Agent and resources...''],
         Inl (Raised (ValueError ''PROJECT_ENDPOINT environment variable is required''))) \<and>
      (\<not> falsy (env ''AGENT_ID'') \<longrightarrow>
         snd (chat_with_agent env w) =
           Inl (Raised (ValueError ''PROJECT_ENDPOINT environment variable is required'')) \<and>
         remote_calls (fst (chat_with_agent env w)) = []) \<and>
      (\<not> falsy (env ''CHAT_MODEL_DEPLOYMENT'') \<longrightarrow>
         create_agent env w =
           ([Print (''Creating Standard Agent: '' @ environ_get env ''AGENT_NAME'' ''OneDrive-Agent''),
             Print ''Error: PROJECT_ENDPOINT environment variable not set''], Inl (SysExit 1))) \<and>
      (\<not> falsy (env ''AGENT_ID'') \<longrightarrow>
         delete_agent env w =
           ([Print (''Deleting agent: '' @ environ_get env ''AGENT_NAME'' ''OneDrive-Agent'' @
                      '' (ID: '' @ the (env ''AGENT_ID'') @ '')''),
             Print ''Error: PROJECT_ENDPOINT environment variable not set''], Inl (SysExit 1))) \<and>
      list_agents env w =
        ([Print ''Standard Agents in project:'', Print rule_line,
          Print ''Error: PROJECT_ENDPOINT environment variable not set''], Inl (SysExit 1))) \<and>
   (falsy (env ''CHAT_MODEL_DEPLOYMENT'') \<longrightarrow>
      create_agent env w =
        ([Print ''Error: CHAT_MODEL_DEPLOYMENT environment variable not set''], Inl (SysExit 1))) \<and>
   (create_agent_with_vector_store env w = Some (t, r) \<and> Call (CreateVersion nm d) \<in> set t \<longrightarrow>
      d = \<lparr>model = environ_get env ''CHAT_MODEL_DEPLOYMENT'' ''gpt-4.1-mini'',
            instructions = product_instructions, tools = tools d\<rparr>) \<and>
   AGENT_INSTRUCTIONS \<noteq> [] \<and> product_instructions \<noteq> []"
proof (intro conjI impI; (elim conjE)?)
  assume a: "falsy (env ''PROJECT_ENDPOINT'')"
  show "create_agent_with_vector_store env w =
        Some ([Print ''Creating Standard Agent with Vector Store...''],
              Inl (Raised (ValueError ''PROJECT_ENDPOINT environment variable is required'')))"
    using a by (rule no_endpoint_iac(1))
  show "delete_agent_and_resources env w =
        ([Print ''Deleting Standard Agent and resources...''],
         Inl (Raised (ValueError ''PROJECT_ENDPOINT environment variable is required'')))"
    using a by (rule no_endpoint_iac(2))
  show "list_agents env w =
        ([Print ''Standard Agents in project:'', Print rule_line,
          Print ''Error: PROJECT_ENDPOINT environment variable not set''], Inl (SysExit 1))"
    using a by (rule no_endpoint_aid(3))
  {
    assume b: "\<not> falsy (env ''AGENT_ID'')"
    show "snd (chat_with_agent env w) =
           Inl (Raised (ValueError ''PROJECT_ENDPOINT environment variable is required''))"
      using a b by (rule no_endpoint_chat(1))
    show "remote_calls (fst (chat_with_agent env w)) = []"
      using a b by (rule no_endpoint_chat(2))
    show "delete_agent env w =
           ([Print (''Deleting agent: '' @ environ_get env ''AGENT_NAME'' ''OneDrive-Agent'' @
                      '' (ID: '' @ the (env ''AGENT_ID'') @ '')''),
             Print ''Error: PROJECT_ENDPOINT environment variable not set''], Inl (SysExit 1))"
      using a b by (rule no_endpoint_aid(2))
  }
  {
    assume c: "\<not> falsy (env ''CHAT_MODEL_DEPLOYMENT'')"
    show "create_agent env w =
           ([Print (''Creating Standard Agent: '' @ environ_get env ''AGENT_NAME'' ''OneDrive-Agent''),
             Print ''Error: PROJECT_ENDPOINT environment variable not set''], Inl (SysExit 1))"
      using a c by (rule no_endpoint_aid(1))
  }
next
  assume "falsy (env ''CHAT_MODEL_DEPLOYMENT'')"
  then show "create_agent env w =
        ([Print ''Error: CHAT_MODEL_DEPLOYMENT environment variable not set''], Inl (SysExit 1))"
    by (rule no_model_aid)
next
  assume "create_agent_with_vector_store env w = Some (t, r)" and "Call (CreateVersion nm d) \<in> set t"
  then show "d = \<lparr>model = environ_get env ''CHAT_MODEL_DEPLOYMENT'' ''gpt-4.1-mini'',
            instructions = product_instructions, tools = tools d\<rparr>"
    by (rule model_iac)
next
  show "AGENT_INSTRUCTIONS \<noteq> []" by (rule instructions_given(1))
  show "product_instructions \<noteq> []" by (rule instructions_given(2))
qed

text \<open>
  C7 (amended), with an empty environment and with an empty \<open>PROJECT_ENDPOINT\<close>.
\<close>

theorem config_errors_witness:
  "list_agents Map.empty steady_world =
     ([Print ''Standard Agents in project:'', Print rule_line,
       Print ''Error: PROJECT_ENDPOINT environment variable not set''], Inl (SysExit 1)) \<and>
   delete_agent_and_resources Map.empty steady_world =
     ([Print ''Deleting Standard Agent and resources...''],
      Inl (Raised (ValueError ''PROJECT_ENDPOINT environment variable is required''))) \<and>
   create_agent Map.empty steady_world =
     ([Print ''Error: CHAT_MODEL_DEPLOYMENT environment variable not set''], Inl (SysExit 1)) \<and>
   create_agent [''CHAT_MODEL_DEPLOYMENT'' \<mapsto> ''gpt-4.1-mini'', ''PROJECT_ENDPOINT'' \<mapsto> []] steady_world =
     ([Print ''Creating Standard Agent: OneDrive-Agent'',
       Print ''Error: PROJECT_ENDPOINT environment variable not set''], Inl (SysExit 1))"
  using config_errors [where env = Map.empty and w = steady_world, THEN conjunct1]
    config_errors [where env = Map.empty and w = steady_world, THEN conjunct2, THEN conjunct1]
    config_errors [where env = "[''CHAT_MODEL_DEPLOYMENT'' \<mapsto> ''gpt-4.1-mini'', ''PROJECT_ENDPOINT'' \<mapsto> []]"
      and w = steady_world, THEN conjunct1]
  by (simp add: falsy_def environ_get_def)

text \<open>
  C7 as stated fails in Foundry-IaC-Agent: with \<open>CHAT_MODEL_DEPLOYMENT\<close> set to the
  empty string the create command uploads, indexes, creates the agent with an empty
  model and exits with code 0.
\<close>

theorem config_errors_counterexample:
  "create_agent_with_vector_store
     [''PROJECT_ENDPOINT'' \<mapsto> ''https://example.invalid'', ''CHAT_MODEL_DEPLOYMENT'' \<mapsto> []]
     steady_world \<noteq> None \<and>
   snd (the (create_agent_with_vector_store
     [''PROJECT_ENDPOINT'' \<mapsto> ''https://example.invalid'', ''CHAT_MODEL_DEPLOYMENT'' \<mapsto> []]
     steady_world)) = Inr (''IaCDocumentAgent:1'', ''vs-1'', ''file-1'') \<and>
   remote_calls (fst (the (create_agent_with_vector_store
     [''PROJECT_ENDPOINT'' \<mapsto> ''https://example.invalid'', ''CHAT_MODEL_DEPLOYMENT'' \<mapsto> []]
     steady_world))) =
     [FilesCreate ''assistants'', VectorStoresCreate ''ProductDocsVectorStore'' [''file-1''],
      VectorStoresRetrieve ''vs-1'', VectorStoresRetrieve ''vs-1'', VectorStoresRetrieve ''vs-1'',
      CreateVersion ''IaCDocumentAgent''
        \<lparr>model = [], instructions = product_instructions, tools = [FileSearchTool [''vs-1'']]\<rparr>] \<and>
   map_option (\<lambda>r. exit_code (snd r)) (main_iac [''agent_manager.py'', ''create'']
     [''PROJECT_ENDPOINT'' \<mapsto> ''https://example.invalid'', ''CHAT_MODEL_DEPLOYMENT'' \<mapsto> []]
     steady_world) = Some 0"
  by code_simp

end
